theory Spec2Isabelle
  imports Main "HOL-Library.Word" "HOL-Library.Multiset"
begin

section \<open>Errors\<close>

text \<open>
  Everything the TypeScript code can throw is a value of \<open>error\<close>: the constraint
  failures raised by the SQLite statements of \<open>database-server.ts\<close>, the
  \<open>TypeError\<close> with which better-sqlite3 refuses to bind a value, the
  \<open>new Error('Passkey not found')\<close> of \<open>verifyPasskeyAuthentication\<close>, and whatever the
  WebAuthn library throws.  The specification's \<open>DuplicateCredential\<close> is the failure of
  the \<open>UNIQUE\<close> constraint on \<open>passkeys.credential_id\<close>.
\<close>

datatype error =
    SQLITE_CONSTRAINT_UNIQUE string
  | SQLITE_CONSTRAINT_PRIMARYKEY string
  | SQLITE_CONSTRAINT_FOREIGNKEY
  | TypeError string
  | Passkey_not_found
  | CounterRegression
  | LibraryError string

section \<open>The store: tables and prepared statements of database-server.ts\<close>

text \<open>
  Timestamps are the \<open>TEXT\<close> values SQLite stores: its own clock reads
  \<open>YYYY-MM-DD HH:MM:SS\<close>, and the handlers write expiry times as ISO texts
  (\<open>toISOString\<close>).  Columns with
  \<open>DEFAULT CURRENT_TIMESTAMP\<close> receive the reading \<open>now\<close> of SQLite's clock, which every
  statement that needs it takes as an argument.  The \<open>transports\<close> column holds the
  \<open>JSON.stringify\<close> text of a list of transport names (or \<open>NULL\<close>) and is read back with
  \<open>JSON.parse\<close>; the model keeps the list the text encodes.
\<close>

record User =
  u_id :: nat
  u_username :: string
  u_password_hash :: string
  u_created_at :: string

record Passkey =
  p_id :: nat
  p_user_id :: nat
  p_credential_id :: string
  p_public_key :: string
  p_counter :: nat
  p_device_type :: string
  p_backed_up :: bool
  p_transports :: "string list option"
  p_created_at :: string
  p_last_used_at :: "string option"

record Session =
  s_id :: string
  s_user_id :: nat
  s_challenge :: string
  s_created_at :: string
  s_expires_at :: string

record db =
  users :: "User list"
  passkeys :: "Passkey list"
  passkeys_seq :: nat
  webauthn_sessions :: "Session list"

text \<open>Rows of the two \<open>JOIN\<close> queries: the row of the left table and the owner's name.\<close>

record PasskeyWithUser =
  pu_row :: Passkey
  pu_username :: string

record SessionWithUser =
  su_row :: Session
  su_username :: string

text \<open>
  SQLite compares \<open>TEXT\<close> values bytewise (\<open>BINARY\<close> collation): the first differing
  byte decides, and a proper prefix is smaller.
\<close>

fun text_gt :: "string \<Rightarrow> string \<Rightarrow> bool" where
  "text_gt [] _ = False"
| "text_gt (a # as) [] = True"
| "text_gt (a # as) (b # bs) =
     ((of_char a :: nat) > of_char b \<or> (a = b \<and> text_gt as bs))"

definition getUserByUsername :: "db \<Rightarrow> string \<Rightarrow> User option" where
  \<comment> \<open>\<open>SELECT * FROM users WHERE username = ?\<close>, read with \<open>.get\<close>\<close>
  "getUserByUsername d name = find (\<lambda>u. u_username u = name) (users d)"

definition getUserById :: "db \<Rightarrow> nat \<Rightarrow> User option" where
  "getUserById d uid = find (\<lambda>u. u_id u = uid) (users d)"

fun insert_desc :: "Passkey \<Rightarrow> Passkey list \<Rightarrow> Passkey list" where
  "insert_desc p [] = [p]"
| "insert_desc p (q # qs) =
     (if text_gt (p_created_at q) (p_created_at p) then q # insert_desc p qs
      else p # q # qs)"

definition getPasskeysByUserId :: "db \<Rightarrow> nat \<Rightarrow> Passkey list" where
  \<comment> \<open>\<open>SELECT * FROM passkeys WHERE user_id = ? ORDER BY created_at DESC\<close>, read with
      \<open>.all\<close>; rows with equal \<open>created_at\<close> come in an order SQL leaves open (here: the
      later row first)\<close>
  "getPasskeysByUserId d uid =
     foldl (\<lambda>acc p. insert_desc p acc) [] (filter (\<lambda>p. p_user_id p = uid) (passkeys d))"

definition getPasskeyByCredentialId :: "db \<Rightarrow> string \<Rightarrow> PasskeyWithUser option" where
  \<comment> \<open>\<open>SELECT p.*, u.username FROM passkeys p JOIN users u ON p.user_id = u.id
      WHERE p.credential_id = ?\<close>\<close>
  "getPasskeyByCredentialId d cid =
     (case find (\<lambda>p. p_credential_id p = cid) (passkeys d) of
        None \<Rightarrow> None
      | Some p \<Rightarrow>
          (case getUserById d (p_user_id p) of
             None \<Rightarrow> None
           | Some u \<Rightarrow> Some \<lparr>pu_row = p, pu_username = u_username u\<rparr>))"

definition createPasskey ::
  "db \<Rightarrow> string \<Rightarrow> nat \<Rightarrow> string \<Rightarrow> string \<Rightarrow> nat \<Rightarrow> string \<Rightarrow> bool \<Rightarrow> string list option
     \<Rightarrow> (error + nat) \<times> db" where
  \<comment> \<open>\<open>INSERT INTO passkeys (user_id, credential_id, public_key, counter, device_type,
      backed_up, transports) VALUES (?, ?, ?, ?, ?, ?, ?)\<close> under
      \<open>credential_id TEXT UNIQUE NOT NULL\<close>, the foreign key on \<open>user_id\<close> (with
      \<open>foreign_keys = ON\<close>) and \<open>id INTEGER PRIMARY KEY AUTOINCREMENT\<close>.  A failed
      statement changes nothing; a successful one reports one changed row.\<close>
  "createPasskey d now user_id credential_id public_key counter device_type backed_up transports =
     (if credential_id \<in> p_credential_id ` set (passkeys d)
        then (Inl (SQLITE_CONSTRAINT_UNIQUE ''passkeys.credential_id''), d)
      else if user_id \<notin> u_id ` set (users d)
        then (Inl SQLITE_CONSTRAINT_FOREIGNKEY, d)
      else (Inr 1,
            d\<lparr>passkeys := passkeys d @
                 [\<lparr>p_id = Suc (passkeys_seq d), p_user_id = user_id,
                   p_credential_id = credential_id, p_public_key = public_key,
                   p_counter = counter, p_device_type = device_type,
                   p_backed_up = backed_up, p_transports = transports,
                   p_created_at = now, p_last_used_at = None\<rparr>],
               passkeys_seq := Suc (passkeys_seq d)\<rparr>))"

definition updatePasskeyCounter :: "db \<Rightarrow> string \<Rightarrow> nat \<Rightarrow> string \<Rightarrow> (error + nat) \<times> db" where
  \<comment> \<open>\<open>UPDATE passkeys SET counter = ?, last_used_at = CURRENT_TIMESTAMP
      WHERE credential_id = ?\<close>\<close>
  "updatePasskeyCounter d now counter credential_id =
     (Inr (length (filter (\<lambda>p. p_credential_id p = credential_id) (passkeys d))),
      d\<lparr>passkeys :=
          map (\<lambda>p. if p_credential_id p = credential_id
                    then p\<lparr>p_counter := counter, p_last_used_at := Some now\<rparr> else p)
              (passkeys d)\<rparr>)"

definition createSession :: "db \<Rightarrow> string \<Rightarrow> string \<Rightarrow> nat \<Rightarrow> string \<Rightarrow> string \<Rightarrow> (error + nat) \<times> db" where
  \<comment> \<open>\<open>INSERT INTO webauthn_sessions (id, user_id, challenge, expires_at)
      VALUES (?, ?, ?, ?)\<close> under \<open>id TEXT PRIMARY KEY\<close> and the foreign key on
      \<open>user_id\<close>: a plain \<open>INSERT\<close>, which fails on a row with the same id\<close>
  "createSession d now sid user_id challenge expires_at =
     (if sid \<in> s_id ` set (webauthn_sessions d)
        then (Inl (SQLITE_CONSTRAINT_PRIMARYKEY ''webauthn_sessions.id''), d)
      else if user_id \<notin> u_id ` set (users d)
        then (Inl SQLITE_CONSTRAINT_FOREIGNKEY, d)
      else (Inr 1,
            d\<lparr>webauthn_sessions := webauthn_sessions d @
                 [\<lparr>s_id = sid, s_user_id = user_id, s_challenge = challenge,
                   s_created_at = now, s_expires_at = expires_at\<rparr>]\<rparr>))"

definition getSession :: "db \<Rightarrow> string \<Rightarrow> string \<Rightarrow> SessionWithUser option" where
  \<comment> \<open>\<open>SELECT s.*, u.username FROM webauthn_sessions s JOIN users u ON s.user_id = u.id
      WHERE s.id = ? AND s.expires_at > CURRENT_TIMESTAMP\<close>\<close>
  "getSession d now sid =
     (case find (\<lambda>s. s_id s = sid \<and> text_gt (s_expires_at s) now) (webauthn_sessions d) of
        None \<Rightarrow> None
      | Some s \<Rightarrow>
          (case getUserById d (s_user_id s) of
             None \<Rightarrow> None
           | Some u \<Rightarrow> Some \<lparr>su_row = s, su_username = u_username u\<rparr>))"

definition deleteSession :: "db \<Rightarrow> string \<Rightarrow> (error + nat) \<times> db" where
  \<comment> \<open>\<open>DELETE FROM webauthn_sessions WHERE id = ?\<close>\<close>
  "deleteSession d sid =
     (Inr (length (filter (\<lambda>s. s_id s = sid) (webauthn_sessions d))),
      d\<lparr>webauthn_sessions := filter (\<lambda>s. s_id s \<noteq> sid) (webauthn_sessions d)\<rparr>)"


text \<open>
  The ceremony code calls \<open>dbQueries.createPasskey.run\<close> with seven JavaScript values.
  better-sqlite3 binds numbers, strings, bigints, buffers and \<open>null\<close>; handed a
  JavaScript boolean it throws a \<open>TypeError\<close> and the statement is not executed.  Six
  of the arguments are numbers, strings or \<open>null\<close> in both callers; the one for
  \<open>backed_up\<close> is a number in one caller and a boolean in the other, so it is kept
  as the JavaScript value it is.  A number bound to the \<open>BOOLEAN\<close> column is read
  as false when it is 0.
\<close>

datatype js_value = JsNumber nat | JsBoolean bool

record createPasskey_arguments =
  arg_user_id :: nat
  arg_credential_id :: string
  arg_public_key :: string
  arg_counter :: nat
  arg_device_type :: string
  arg_backed_up :: js_value
  arg_transports :: "string list option"

definition createPasskey_run :: "db \<Rightarrow> string \<Rightarrow> createPasskey_arguments \<Rightarrow> (error + nat) \<times> db" where
  \<comment> \<open>\<open>dbQueries.createPasskey.run(...)\<close>: binding, then \<open>createPasskey\<close>\<close>
  "createPasskey_run d now args =
     (case arg_backed_up args of
        JsBoolean b \<Rightarrow>
          (Inl (TypeError
                  ''SQLite3 can only bind numbers, strings, bigints, buffers, and null''), d)
      | JsNumber n \<Rightarrow>
          createPasskey d now (arg_user_id args) (arg_credential_id args)
            (arg_public_key args) (arg_counter args) (arg_device_type args) (n \<noteq> 0)
            (arg_transports args))"

section \<open>Node and JavaScript primitives\<close>

type_synonym bytes = "8 word list"

definition base64url_alphabet :: string where
  "base64url_alphabet =
     ''ABCDEFGHIJKLMNOPQRSTUVWXYZabcdefghijklmnopqrstuvwxyz0123456789-_''"

definition sextet :: "nat \<Rightarrow> char" where
  "sextet n = base64url_alphabet ! (n mod 64)"

fun base64url :: "bytes \<Rightarrow> string" where
  \<comment> \<open>\<open>Buffer.from(bytes).toString('base64url')\<close>: three bytes give four characters,
      and the last group is not padded\<close>
  "base64url [] = []"
| "base64url [a] =
     [sextet (unat a div 4), sextet (unat a mod 4 * 16)]"
| "base64url [a, b] =
     [sextet (unat a div 4), sextet (unat a mod 4 * 16 + unat b div 16),
      sextet (unat b mod 16 * 4)]"
| "base64url (a # b # c # rest) =
     [sextet (unat a div 4), sextet (unat a mod 4 * 16 + unat b div 16),
      sextet (unat b mod 16 * 4 + unat c div 64), sextet (unat c mod 64)] @ base64url rest"



definition Buffer_from :: "string \<Rightarrow> bytes" where
  \<comment> \<open>\<open>Buffer.from(text)\<close>: the bytes of the text\<close>
  "Buffer_from s = map (\<lambda>c. of_nat (of_char c)) s"

section \<open>The WebAuthn wire types and the interface of the WebAuthn library\<close>

text \<open>
  The client sends \<open>clientDataJSON\<close>, \<open>attestationObject\<close> and \<open>authenticatorData\<close> as
  base64url text that only the WebAuthn library decodes.  The model carries what the text
  encodes: the fields the library reads, and for a signature the fact the library
  establishes about it.  The verify routes read one more member of the body,
  \<open>challenge\<close>.  In the library's \<open>registrationInfo\<close> the \<open>credential.id\<close> is
  text, the base64url encoding of the attested credential id, and the public key is
  bytes.
\<close>

record ClientData =
  cd_type :: string
  cd_challenge :: string
  cd_origin :: string

record AttestationObject =
  at_rpId :: string
  at_aaguid :: string
  at_credentialId :: bytes
  at_publicKey :: bytes
  at_counter :: nat
  at_backedUp :: bool
  at_signatureValid :: bool

record AuthenticatorAttestationResponseJSON =
  r_clientDataJSON :: ClientData
  r_attestationObject :: AttestationObject
  r_transports :: "string list option"

record RegistrationResponseJSON =
  r_id :: string
  r_rawId :: string
  r_response :: AuthenticatorAttestationResponseJSON
  r_type :: string
  r_challenge :: "string option"

record AuthenticatorData =
  ad_rpId :: string
  ad_counter :: nat

record AuthenticatorAssertionResponseJSON =
  a_clientDataJSON :: ClientData
  a_authenticatorData :: AuthenticatorData
  a_signedBy :: bytes
  a_userHandle :: "string option"

record AuthenticationResponseJSON =
  a_id :: string
  a_rawId :: string
  a_response :: AuthenticatorAssertionResponseJSON
  a_type :: string
  a_challenge :: "string option"

record CredentialDescriptor =
  c_id :: string
  c_type :: string
  c_transports :: "string list option"

record AuthenticatorSelection =
  authenticatorAttachment :: string
  userVerification :: string
  residentKey :: string

record GenerateRegistrationOptionsOpts =
  gr_rpName :: string
  gr_rpID :: string
  gr_userID :: bytes
  gr_userName :: string
  gr_userDisplayName :: string
  gr_attestationType :: string
  gr_authenticatorSelection :: AuthenticatorSelection
  gr_supportedAlgorithmIDs :: "int list"
  gr_excludeCredentials :: "CredentialDescriptor list"
  gr_timeout :: nat

record PublicKeyCredentialCreationOptionsJSON =
  co_challenge :: string
  co_opts :: GenerateRegistrationOptionsOpts

record GenerateAuthenticationOptionsOpts =
  ga_rpID :: string
  ga_allowCredentials :: "CredentialDescriptor list option"
  ga_userVerification :: string
  ga_timeout :: nat

record PublicKeyCredentialRequestOptionsJSON =
  ro_challenge :: string
  ro_rpId :: string
  ro_allowCredentials :: "CredentialDescriptor list option"
  ro_userVerification :: string
  ro_timeout :: nat

record VerifyRegistrationResponseOpts =
  vr_response :: RegistrationResponseJSON
  vr_expectedChallenge :: string
  vr_expectedOrigin :: string
  vr_expectedRPID :: string

record RegisteredCredential =
  rc_id :: string
  rc_publicKey :: bytes
  rc_counter :: nat

record RegistrationInfo =
  ri_aaguid :: string
  ri_credential :: RegisteredCredential
  ri_credentialBackedUp :: bool

record VerifiedRegistrationResponse =
  reg_verified :: bool
  registrationInfo :: "RegistrationInfo option"

record WebAuthnCredential =
  wc_id :: string
  wc_publicKey :: bytes
  wc_counter :: nat

record VerifyAuthenticationResponseOpts =
  va_response :: AuthenticationResponseJSON
  va_expectedChallenge :: string
  va_expectedOrigin :: string
  va_expectedRPID :: string
  va_credential :: WebAuthnCredential

record AuthenticationInfo =
  newCounter :: nat

record VerifiedAuthenticationResponse =
  auth_verified :: bool
  authenticationInfo :: "AuthenticationInfo option"

text \<open>
  What the code takes from outside: the four functions imported from
  \<open>@simplewebauthn/server\<close>, each of which may throw, and Node's decoder
  \<open>Buffer.from(text, 'base64url')\<close>.  The functions of \<open>webauthn.ts\<close> are defined for
  any such collaborators.
\<close>

record externals =
  generateRegistrationOptions ::
    "GenerateRegistrationOptionsOpts \<Rightarrow> error + PublicKeyCredentialCreationOptionsJSON"
  verifyRegistrationResponse ::
    "VerifyRegistrationResponseOpts \<Rightarrow> error + VerifiedRegistrationResponse"
  generateAuthenticationOptions ::
    "GenerateAuthenticationOptionsOpts \<Rightarrow> error + PublicKeyCredentialRequestOptionsJSON"
  verifyAuthenticationResponse ::
    "VerifyAuthenticationResponseOpts \<Rightarrow> error + VerifiedAuthenticationResponse"
  Buffer_from_base64url :: "string \<Rightarrow> bytes"

record config =
  RP_ID :: string
  RP_NAME :: string
  ORIGIN :: string


section \<open>The ceremony functions of src/lib/webauthn.ts\<close>


record RegistrationResult =
  rr_verified :: bool
  rr_credentialId :: string

record AuthenticationOptionsResult =
  auth_options :: PublicKeyCredentialRequestOptionsJSON
  auth_challenge :: string

record AuthenticationResult =
  ar_verified :: bool
  ar_userId :: nat
  ar_username :: string

definition descriptor :: "Passkey \<Rightarrow> CredentialDescriptor" where
  \<comment> \<open>the element both option generators build from a stored passkey\<close>
  "descriptor passkey =
     \<lparr>c_id = p_credential_id passkey, c_type = ''public-key'',
      c_transports = p_transports passkey\<rparr>"


definition deviceType_of :: "string \<Rightarrow> string" where
  "deviceType_of aaguid =
     (if aaguid = ''00000000-0000-0000-0000-000000000000'' then ''platform''
      else ''cross-platform'')"

definition passkey_arguments ::
  "RegistrationResponseJSON \<Rightarrow> nat \<Rightarrow> RegistrationInfo \<Rightarrow> createPasskey_arguments" where
  \<comment> \<open>the arguments of \<open>dbQueries.createPasskey.run\<close> in \<open>verifyPasskeyRegistration\<close>
      (lines 206 to 223 of \<open>webauthn.ts\<close>)\<close>
  "passkey_arguments body userId info =
     (let credentialId = r_id body;
          deviceType = deviceType_of (ri_aaguid info);
          transports = r_transports (r_response body)
      in \<lparr>arg_user_id = userId,
          arg_credential_id = credentialId,
          arg_public_key = base64url (rc_publicKey (ri_credential info)),
          arg_counter = rc_counter (ri_credential info),
          arg_device_type = deviceType,
          arg_backed_up = JsNumber (if ri_credentialBackedUp info then 1 else 0),
          arg_transports = transports\<rparr>)"

definition verifyPasskeyRegistration ::
  "externals \<Rightarrow> config \<Rightarrow> string \<Rightarrow> RegistrationResponseJSON \<Rightarrow> string \<Rightarrow> nat \<Rightarrow> db
     \<Rightarrow> (error + RegistrationResult) \<times> db" where
  "verifyPasskeyRegistration ext cfg now body expectedChallenge userId d =
     (case verifyRegistrationResponse ext
             \<lparr>vr_response = body, vr_expectedChallenge = expectedChallenge,
              vr_expectedOrigin = ORIGIN cfg, vr_expectedRPID = RP_ID cfg\<rparr> of
        Inl e \<Rightarrow> (Inl e, d)
      | Inr verification \<Rightarrow>
          (let result =
                 \<lparr>rr_verified = reg_verified verification,
                  rr_credentialId = (if reg_verified verification then r_id body else [])\<rparr>
           in case (reg_verified verification, registrationInfo verification) of
                (True, Some info) \<Rightarrow>
                  (case createPasskey_run d now (passkey_arguments body userId info) of
                     (Inl e, d') \<Rightarrow> (Inl e, d')
                   | (Inr _, d') \<Rightarrow> (Inr result, d'))
              | _ \<Rightarrow> (Inr result, d)))"

definition authenticationOpts :: "config \<Rightarrow> string option \<Rightarrow> db \<Rightarrow> GenerateAuthenticationOptionsOpts" where
  \<comment> \<open>the options \<open>generatePasskeyAuthenticationOptions\<close> builds for the library\<close>
  "authenticationOpts cfg username d =
     (let allowCredentials =
            (case username of
               None \<Rightarrow> []
             | Some name \<Rightarrow>
                 if name = [] then []
                 else (case getUserByUsername d name of
                         Some user \<Rightarrow> map descriptor (getPasskeysByUserId d (u_id user))
                       | None \<Rightarrow> []))
      in \<lparr>ga_rpID = RP_ID cfg,
          ga_allowCredentials =
            (if length allowCredentials > 0 then Some allowCredentials else None),
          ga_userVerification = ''preferred'',
          ga_timeout = 60000\<rparr>)"

definition generatePasskeyAuthenticationOptions ::
  "externals \<Rightarrow> config \<Rightarrow> string option \<Rightarrow> db \<Rightarrow> error + AuthenticationOptionsResult" where
  "generatePasskeyAuthenticationOptions ext cfg username d =
     (case generateAuthenticationOptions ext (authenticationOpts cfg username d) of
        Inl e \<Rightarrow> Inl e
      | Inr authenticationOptions \<Rightarrow>
          Inr \<lparr>auth_options = authenticationOptions,
               auth_challenge = ro_challenge authenticationOptions\<rparr>)"

definition verifyPasskeyAuthentication ::
  "externals \<Rightarrow> config \<Rightarrow> string \<Rightarrow> AuthenticationResponseJSON \<Rightarrow> string \<Rightarrow> db
     \<Rightarrow> (error + AuthenticationResult) \<times> db" where
  "verifyPasskeyAuthentication ext cfg now body expectedChallenge d =
     (let credentialId = a_id body
      in case getPasskeyByCredentialId d credentialId of
           None \<Rightarrow> (Inl Passkey_not_found, d)
         | Some passkey \<Rightarrow>
             (case verifyAuthenticationResponse ext
                     \<lparr>va_response = body, va_expectedChallenge = expectedChallenge,
                      va_expectedOrigin = ORIGIN cfg, va_expectedRPID = RP_ID cfg,
                      va_credential =
                        \<lparr>wc_id = p_credential_id (pu_row passkey),
                         wc_publicKey =
                           Buffer_from_base64url ext (p_public_key (pu_row passkey)),
                         wc_counter = p_counter (pu_row passkey)\<rparr>\<rparr> of
                Inl e \<Rightarrow> (Inl e, d)
              | Inr verification \<Rightarrow>
                  (let result =
                         \<lparr>ar_verified = auth_verified verification,
                          ar_userId = p_user_id (pu_row passkey),
                          ar_username = pu_username passkey\<rparr>
                   in case (auth_verified verification, authenticationInfo verification) of
                        (True, Some info) \<Rightarrow>
                          (case updatePasskeyCounter d now (newCounter info) credentialId of
                             (Inl e, d') \<Rightarrow> (Inl e, d')
                           | (Inr _, d') \<Rightarrow> (Inr result, d'))
                      | _ \<Rightarrow> (Inr result, d))))"

section \<open>The earlier registration verifier (src/unnamed/part_000)\<close>

text \<open>
  \<open>part_000\<close> holds a second \<open>verifyPasskeyRegistration\<close>.  Its configuration is
  fixed by \<open>NODE_ENV\<close> alone.  It derives the credential id by encoding the library's
  \<open>credential.id\<close> (the bytes of that text) once more, binds the counter \<open>0\<close>, and
  binds \<open>credentialBackedUp\<close> as the boolean it is.
\<close>

definition config_part_000 :: "bool \<Rightarrow> config" where
  \<comment> \<open>\<open>RP_ID\<close>, \<open>RP_NAME\<close> and \<open>ORIGIN\<close> of \<open>part_000\<close>; the argument is
      \<open>process.env.NODE_ENV === 'production'\<close>\<close>
  "config_part_000 production =
     \<lparr>RP_ID = (if production then ''yourdomain.com'' else ''localhost''),
      RP_NAME = ''WebAuthn Test Demo'',
      ORIGIN = (if production then ''https://yourdomain.com'' else ''http://localhost:3000'')\<rparr>"

definition passkey_arguments_part_000 ::
  "RegistrationResponseJSON \<Rightarrow> nat \<Rightarrow> RegistrationInfo \<Rightarrow> createPasskey_arguments" where
  \<comment> \<open>the arguments of \<open>dbQueries.createPasskey.run\<close> in the \<open>verifyPasskeyRegistration\<close>
      of \<open>part_000\<close> (lines 154 to 171)\<close>
  "passkey_arguments_part_000 body userId info =
     (let credentialId = base64url (Buffer_from (rc_id (ri_credential info)));
          deviceType = deviceType_of (ri_aaguid info);
          transports = r_transports (r_response body)
      in \<lparr>arg_user_id = userId,
          arg_credential_id = credentialId,
          arg_public_key = base64url (rc_publicKey (ri_credential info)),
          arg_counter = 0,
          arg_device_type = deviceType,
          arg_backed_up = JsBoolean (ri_credentialBackedUp info),
          arg_transports = transports\<rparr>)"

definition verifyPasskeyRegistration_part_000 ::
  "externals \<Rightarrow> bool \<Rightarrow> string \<Rightarrow> RegistrationResponseJSON \<Rightarrow> string \<Rightarrow> nat \<Rightarrow> db
     \<Rightarrow> (error + RegistrationResult) \<times> db" where
  "verifyPasskeyRegistration_part_000 ext production now body expectedChallenge userId d =
     (case verifyRegistrationResponse ext
             \<lparr>vr_response = body, vr_expectedChallenge = expectedChallenge,
              vr_expectedOrigin = ORIGIN (config_part_000 production),
              vr_expectedRPID = RP_ID (config_part_000 production)\<rparr> of
        Inl e \<Rightarrow> (Inl e, d)
      | Inr verification \<Rightarrow>
          (case (reg_verified verification, registrationInfo verification) of
             (True, Some info) \<Rightarrow>
               (case createPasskey_run d now (passkey_arguments_part_000 body userId info) of
                  (Inl e, d') \<Rightarrow> (Inl e, d')
                | (Inr _, d') \<Rightarrow>
                    (Inr \<lparr>rr_verified = True,
                          rr_credentialId =
                            base64url (Buffer_from (rc_id (ri_credential info)))\<rparr>, d'))
           | _ \<Rightarrow>
               (Inr \<lparr>rr_verified = reg_verified verification, rr_credentialId = []\<rparr>, d)))"

section \<open>The route handlers\<close>

text \<open>
  A handler takes what it reads of the request (the \<open>session\<close> cookie and the members
  of the JSON body) and the readings it takes of its environment, and returns the
  response together with the store it leaves behind.  An error thrown anywhere inside
  the handler's \<open>try\<close> block is caught there and answered with status 500.
\<close>

record runtime =
  CURRENT_TIMESTAMP :: string
  in_5_minutes :: string
  in_24_hours :: string
  randomUUID :: string

datatype response =
    JsonError nat string
  | JsonFailure string error
  | RegistrationOptions PublicKeyCredentialCreationOptionsJSON string
  | RegistrationVerified bool string string
  | AuthenticationFailed
  | AuthenticationSucceeded nat string string


definition register_verify_POST ::
  "externals \<Rightarrow> config \<Rightarrow> runtime \<Rightarrow> string option \<Rightarrow> RegistrationResponseJSON \<Rightarrow> db
     \<Rightarrow> response \<times> db" where
  \<comment> \<open>\<open>POST\<close> of \<open>api/passkeys/register/verify/route.ts\<close>\<close>
  "register_verify_POST ext cfg rt cookie body d =
     (case cookie of
        None \<Rightarrow> (JsonError 401 ''Not authenticated'', d)
      | Some sessionId \<Rightarrow>
          if sessionId = [] then (JsonError 401 ''Not authenticated'', d)
          else (case getSession d (CURRENT_TIMESTAMP rt) sessionId of
             None \<Rightarrow> (JsonError 401 ''Invalid session'', d)
           | Some session \<Rightarrow>
               (case r_challenge body of
                  None \<Rightarrow> (JsonError 400 ''Challenge is required'', d)
                | Some challenge \<Rightarrow>
                    if challenge = [] then (JsonError 400 ''Challenge is required'', d)
                    else (case getSession d (CURRENT_TIMESTAMP rt)
                                 (''challenge-'' @ sessionId) of
                       None \<Rightarrow> (JsonError 400 ''Invalid challenge'', d)
                     | Some challengeSession \<Rightarrow>
                         if s_challenge (su_row challengeSession) \<noteq> challenge
                         then (JsonError 400 ''Invalid challenge'', d)
                         else (case verifyPasskeyRegistration ext cfg (CURRENT_TIMESTAMP rt)
                                      body challenge (s_user_id (su_row session)) d of
                            (Inl e, d') \<Rightarrow>
                              (JsonFailure ''Failed to verify passkey registration'' e, d')
                          | (Inr result, d') \<Rightarrow>
                              (case deleteSession d' (''challenge-'' @ sessionId) of
                                 (Inl e, d'') \<Rightarrow>
                                   (JsonFailure ''Failed to verify passkey registration'' e, d'')
                               | (Inr _, d'') \<Rightarrow>
                                   (RegistrationVerified (rr_verified result)
                                      (if rr_verified result
                                       then ''Passkey registered successfully''
                                       else ''Passkey registration failed'')
                                      (rr_credentialId result), d'')))))))"

definition authenticate_verify_POST ::
  "externals \<Rightarrow> config \<Rightarrow> runtime \<Rightarrow> AuthenticationResponseJSON \<Rightarrow> db \<Rightarrow> response \<times> db" where
  \<comment> \<open>\<open>POST\<close> of \<open>api/passkeys/authenticate/verify/route.ts\<close>; \<open>randomUUID\<close> is the
      value of \<open>generateSessionId()\<close> and \<open>in_24_hours\<close> the ISO text of
      \<open>Date.now() + 24 * 60 * 60 * 1000\<close>\<close>
  "authenticate_verify_POST ext cfg rt body d =
     (case a_challenge body of
        None \<Rightarrow> (JsonError 400 ''Challenge is required'', d)
      | Some challenge \<Rightarrow>
          if challenge = [] then (JsonError 400 ''Challenge is required'', d)
          else (case verifyPasskeyAuthentication ext cfg (CURRENT_TIMESTAMP rt) body challenge d of
             (Inl e, d') \<Rightarrow> (JsonFailure ''Failed to verify passkey authentication'' e, d')
           | (Inr result, d') \<Rightarrow>
               if \<not> ar_verified result then (AuthenticationFailed, d')
               else (case createSession d' (CURRENT_TIMESTAMP rt) (randomUUID rt)
                            (ar_userId result) ''passkey-login'' (in_24_hours rt) of
                  (Inl e, d'') \<Rightarrow>
                    (JsonFailure ''Failed to verify passkey authentication'' e, d'')
                | (Inr _, d'') \<Rightarrow>
                    (AuthenticationSucceeded (ar_userId result) (ar_username result)
                       (randomUUID rt), d''))))"

section \<open>The WebAuthn library, as the specification describes it\<close>

definition spec_verifyRegistrationResponse ::
  "VerifyRegistrationResponseOpts \<Rightarrow> error + VerifiedRegistrationResponse" where
  \<comment> \<open>Modelled from the spec: \<open>verifyRegistrationResponse\<close> of \<open>@simplewebauthn/server\<close> is
      not part of the repository.  Section 4.3, registration steps 2 to 6: the declared
      challenge, the origin, the relying-party id and the attestation signature are
      checked in turn, a failed check gives \<open>verified = false\<close> (section 7), and on
      success the credential id, public key, initial counter, AAGUID and backup flag are
      taken from the attestation; the credential id is reported as the base64url text of
      the attested bytes.\<close>
  "spec_verifyRegistrationResponse opts =
     (let body = vr_response opts;
          clientData = r_clientDataJSON (r_response body);
          att = r_attestationObject (r_response body)
      in if cd_challenge clientData \<noteq> vr_expectedChallenge opts
            \<or> cd_origin clientData \<noteq> vr_expectedOrigin opts
            \<or> at_rpId att \<noteq> vr_expectedRPID opts
            \<or> \<not> at_signatureValid att
         then Inr \<lparr>reg_verified = False, registrationInfo = None\<rparr>
         else Inr \<lparr>reg_verified = True,
                   registrationInfo =
                     Some \<lparr>ri_aaguid = at_aaguid att,
                           ri_credential =
                             \<lparr>rc_id = base64url (at_credentialId att),
                              rc_publicKey = at_publicKey att,
                              rc_counter = at_counter att\<rparr>,
                           ri_credentialBackedUp = at_backedUp att\<rparr>\<rparr>)"

definition spec_verifyAuthenticationResponse ::
  "VerifyAuthenticationResponseOpts \<Rightarrow> error + VerifiedAuthenticationResponse" where
  \<comment> \<open>Modelled from the spec: \<open>verifyAuthenticationResponse\<close> of \<open>@simplewebauthn/server\<close>
      is not part of the repository.  Section 4.3, authentication steps 2 to 4: challenge,
      origin and relying-party id are checked as for registration, the signature is
      checked under the stored public key, and then the counter: if the stored counter is
      nonzero and the reported counter is not greater, the call fails with
      \<open>CounterRegression\<close>, distinctly from the \<open>verified = false\<close> of the other
      checks; a stored counter of zero skips the check.\<close>
  "spec_verifyAuthenticationResponse opts =
     (let body = va_response opts;
          clientData = a_clientDataJSON (a_response body);
          authData = a_authenticatorData (a_response body);
          credential = va_credential opts
      in if cd_challenge clientData \<noteq> va_expectedChallenge opts
            \<or> cd_origin clientData \<noteq> va_expectedOrigin opts
            \<or> ad_rpId authData \<noteq> va_expectedRPID opts
            \<or> a_signedBy (a_response body) \<noteq> wc_publicKey credential
         then Inr \<lparr>auth_verified = False, authenticationInfo = None\<rparr>
         else if wc_counter credential \<noteq> 0 \<and> ad_counter authData \<le> wc_counter credential
         then Inl CounterRegression
         else Inr \<lparr>auth_verified = True,
                   authenticationInfo = Some \<lparr>newCounter = ad_counter authData\<rparr>\<rparr>)"

definition spec_generateRegistrationOptions ::
  "string \<Rightarrow> GenerateRegistrationOptionsOpts \<Rightarrow> error + PublicKeyCredentialCreationOptionsJSON" where
  \<comment> \<open>Modelled from the spec: \<open>generateRegistrationOptions\<close> of \<open>@simplewebauthn/server\<close>
      is not part of the repository.  Section 4.1: the options handed in, with a fresh
      random challenge (here the first argument).\<close>
  "spec_generateRegistrationOptions fresh opts =
     Inr \<lparr>co_challenge = fresh, co_opts = opts\<rparr>"

definition spec_generateAuthenticationOptions ::
  "string \<Rightarrow> GenerateAuthenticationOptionsOpts \<Rightarrow> error + PublicKeyCredentialRequestOptionsJSON" where
  \<comment> \<open>Modelled from the spec: \<open>generateAuthenticationOptions\<close> of
      \<open>@simplewebauthn/server\<close> is not part of the repository.  Section 4.1: relying-party
      id, fresh challenge (here the first argument), user verification, timeout and the
      optional allow-list, as handed in.\<close>
  "spec_generateAuthenticationOptions fresh opts =
     Inr \<lparr>ro_challenge = fresh, ro_rpId = ga_rpID opts,
          ro_allowCredentials = ga_allowCredentials opts,
          ro_userVerification = ga_userVerification opts,
          ro_timeout = ga_timeout opts\<rparr>"

definition spec_library :: "string \<Rightarrow> (string \<Rightarrow> bytes) \<Rightarrow> externals" where
  \<comment> \<open>the library of the specification, issuing the challenge \<open>fresh\<close>, beside a
      decoder\<close>
  "spec_library fresh decode =
     \<lparr>generateRegistrationOptions = spec_generateRegistrationOptions fresh,
      verifyRegistrationResponse = spec_verifyRegistrationResponse,
      generateAuthenticationOptions = spec_generateAuthenticationOptions fresh,
      verifyAuthenticationResponse = spec_verifyAuthenticationResponse,
      Buffer_from_base64url = decode\<rparr>"

section \<open>Notions used in the statements, a decoder, and example stores\<close>

definition unsextet :: "char \<Rightarrow> nat option" where
  "unsextet c =
     (let n = (of_char c :: nat)
      in if 65 \<le> n \<and> n \<le> 90 then Some (n - 65)
         else if 97 \<le> n \<and> n \<le> 122 then Some (n - 71)
         else if 48 \<le> n \<and> n \<le> 57 then Some (n + 4)
         else if n = 45 then Some 62
         else if n = 95 then Some 63
         else None)"

fun from_sextets :: "nat list \<Rightarrow> bytes" where
  "from_sextets (a # b # c # e # rest) =
     [of_nat (a * 4 + b div 16), of_nat (b mod 16 * 16 + c div 4), of_nat (c mod 4 * 64 + e)]
       @ from_sextets rest"
| "from_sextets [a, b, c] = [of_nat (a * 4 + b div 16), of_nat (b mod 16 * 16 + c div 4)]"
| "from_sextets [a, b] = [of_nat (a * 4 + b div 16)]"
| "from_sextets _ = []"

definition decode_base64url :: "string \<Rightarrow> bytes" where
  \<comment> \<open>a decoder for the examples below: it reads the characters of the base64url
      alphabet and passes over any other\<close>
  "decode_base64url s = from_sextets (List.map_filter unsextet s)"

definition credential_ids :: "db \<Rightarrow> string list" where
  "credential_ids d = map p_credential_id (passkeys d)"


definition example_db :: db where
  \<comment> \<open>two users, no passkeys, no sessions\<close>
  "example_db =
     \<lparr>users = [\<lparr>u_id = 1, u_username = ''alice'', u_password_hash = ''h1'',
                 u_created_at = ''2025-01-01 10:00:00''\<rparr>,
               \<lparr>u_id = 2, u_username = ''bob'', u_password_hash = ''h2'',
                 u_created_at = ''2025-01-01 11:00:00''\<rparr>],
      passkeys = [], passkeys_seq = 0, webauthn_sessions = []\<rparr>"

definition example_db_1 :: db where
  \<comment> \<open>\<open>example_db\<close> after alice has stored the credential \<open>AQID\<close>\<close>
  "example_db_1 =
     snd (createPasskey example_db ''2025-01-02 09:00:00'' 1 ''AQID'' ''BAUG'' 5
            ''platform'' False None)"

definition example_cfg :: config where
  \<comment> \<open>the development defaults of \<open>webauthn.ts\<close>\<close>
  "example_cfg =
     \<lparr>RP_ID = ''localhost'', RP_NAME = ''WebAuthn Test Demo'',
      ORIGIN = ''http://localhost:3200''\<rparr>"

definition example_assertion :: "bytes \<Rightarrow> nat \<Rightarrow> AuthenticationResponseJSON" where
  \<comment> \<open>an assertion for the credential \<open>AQID\<close> on the challenge \<open>c2\<close>, signed with the
      given key and reporting the given counter\<close>
  "example_assertion key n =
     \<lparr>a_id = ''AQID'', a_rawId = ''AQID'',
      a_response =
        \<lparr>a_clientDataJSON =
           \<lparr>cd_type = ''webauthn.get'', cd_challenge = ''c2'',
            cd_origin = ''http://localhost:3200''\<rparr>,
         a_authenticatorData = \<lparr>ad_rpId = ''localhost'', ad_counter = n\<rparr>,
         a_signedBy = key, a_userHandle = None\<rparr>,
      a_type = ''public-key'', a_challenge = Some ''c2''\<rparr>"

definition passes_checks :: "config \<Rightarrow> string \<Rightarrow> bytes \<Rightarrow> AuthenticationResponseJSON \<Rightarrow> bool" where
  \<comment> \<open>the assertion carries the expected challenge, the configured origin and
      relying-party id, and a signature that verifies under the given public key\<close>
  "passes_checks cfg expectedChallenge publicKey body =
     (cd_challenge (a_clientDataJSON (a_response body)) = expectedChallenge
      \<and> cd_origin (a_clientDataJSON (a_response body)) = ORIGIN cfg
      \<and> ad_rpId (a_authenticatorData (a_response body)) = RP_ID cfg
      \<and> a_signedBy (a_response body) = publicKey)"

definition reported_counter :: "AuthenticationResponseJSON \<Rightarrow> nat" where
  "reported_counter body = ad_counter (a_authenticatorData (a_response body))"

definition example_passkey :: PasskeyWithUser where
  \<comment> \<open>the row of \<open>example_db_1\<close> for the credential \<open>AQID\<close>, joined with its owner\<close>
  "example_passkey =
     \<lparr>pu_row =
        \<lparr>p_id = 1, p_user_id = 1, p_credential_id = ''AQID'', p_public_key = ''BAUG'',
         p_counter = 5, p_device_type = ''platform'', p_backed_up = False,
         p_transports = None, p_created_at = ''2025-01-02 09:00:00'',
         p_last_used_at = None\<rparr>,
      pu_username = ''alice''\<rparr>"

definition example_registration :: "string \<Rightarrow> RegistrationResponseJSON" where
  \<comment> \<open>a registration response on the challenge \<open>c1\<close> whose attestation holds the
      credential id bytes 1, 2, 3 (\<open>AQID\<close> in base64url) and the counter 7, and whose
      \<open>id\<close> member is the given text\<close>
  "example_registration declared =
     \<lparr>r_id = declared, r_rawId = declared,
      r_response =
        \<lparr>r_clientDataJSON =
           \<lparr>cd_type = ''webauthn.create'', cd_challenge = ''c1'',
            cd_origin = ''http://localhost:3200''\<rparr>,
         r_attestationObject =
           \<lparr>at_rpId = ''localhost'', at_aaguid = ''00000000-0000-0000-0000-000000000000'',
            at_credentialId = [1, 2, 3], at_publicKey = [4, 5, 6], at_counter = 7,
            at_backedUp = False, at_signatureValid = True\<rparr>,
         r_transports = Some [''internal'']\<rparr>,
      r_type = ''public-key'', r_challenge = Some ''c1''\<rparr>"

definition example_db_2 :: db where
  \<comment> \<open>\<open>example_db\<close> with alice logged in (session \<open>sess1\<close>) and her registration
      challenge \<open>c1\<close> pending\<close>
  "example_db_2 =
     example_db\<lparr>webauthn_sessions :=
       [\<lparr>s_id = ''sess1'', s_user_id = 1, s_challenge = ''password-login'',
         s_created_at = ''2025-01-02 08:00:00'', s_expires_at = ''2025-01-03T08:00:00.000Z''\<rparr>,
        \<lparr>s_id = ''challenge-sess1'', s_user_id = 1, s_challenge = ''c1'',
         s_created_at = ''2025-01-02 08:50:00'',
         s_expires_at = ''2025-01-02T08:55:00.000Z''\<rparr>]\<rparr>"

definition example_rt :: runtime where
  "example_rt =
     \<lparr>CURRENT_TIMESTAMP = ''2025-01-02 08:51:00'',
      in_5_minutes = ''2025-01-02T08:56:00.000Z'',
      in_24_hours = ''2025-01-03T08:51:00.000Z'',
      randomUUID = ''sess2''\<rparr>"

definition assertionOpts ::
  "externals \<Rightarrow> config \<Rightarrow> AuthenticationResponseJSON \<Rightarrow> string \<Rightarrow> PasskeyWithUser
     \<Rightarrow> VerifyAuthenticationResponseOpts" where
  \<comment> \<open>the argument \<open>verifyPasskeyAuthentication\<close> hands to
      \<open>verifyAuthenticationResponse\<close> for the passkey it has found\<close>
  "assertionOpts ext cfg body expectedChallenge passkey =
     \<lparr>va_response = body, va_expectedChallenge = expectedChallenge,
      va_expectedOrigin = ORIGIN cfg, va_expectedRPID = RP_ID cfg,
      va_credential =
        \<lparr>wc_id = p_credential_id (pu_row passkey),
         wc_publicKey = Buffer_from_base64url ext (p_public_key (pu_row passkey)),
         wc_counter = p_counter (pu_row passkey)\<rparr>\<rparr>"

definition registrationOpts :: "config \<Rightarrow> RegistrationResponseJSON \<Rightarrow> string \<Rightarrow> VerifyRegistrationResponseOpts" where
  \<comment> \<open>the argument both registration verifiers hand to \<open>verifyRegistrationResponse\<close>\<close>
  "registrationOpts cfg body expectedChallenge =
     \<lparr>vr_response = body, vr_expectedChallenge = expectedChallenge,
      vr_expectedOrigin = ORIGIN cfg, vr_expectedRPID = RP_ID cfg\<rparr>"

definition example_db_3 :: db where
  \<comment> \<open>\<open>example_db_2\<close> after alice's registration response has been verified\<close>
  "example_db_3 =
     snd (register_verify_POST (spec_library ''c9'' decode_base64url) example_cfg example_rt
            (Some ''sess1'') (example_registration ''AQID'') example_db_2)"

definition allow_list :: "PublicKeyCredentialRequestOptionsJSON \<Rightarrow> CredentialDescriptor list" where
  \<comment> \<open>the entries of the allow-list of returned options; options without an allow-list
      have none\<close>
  "allow_list options = (case ro_allowCredentials options of None \<Rightarrow> [] | Some xs \<Rightarrow> xs)"

definition example_db_4 :: db where
  \<comment> \<open>alice owns the credentials \<open>AQID\<close> and \<open>BwgJ\<close>, bob owns \<open>CgsM\<close>\<close>
  "example_db_4 =
     example_db\<lparr>passkeys :=
       [\<lparr>p_id = 1, p_user_id = 1, p_credential_id = ''AQID'', p_public_key = ''BAUG'',
         p_counter = 5, p_device_type = ''platform'', p_backed_up = False,
         p_transports = Some [''internal''], p_created_at = ''2025-01-02 09:00:00'',
         p_last_used_at = None\<rparr>,
        \<lparr>p_id = 2, p_user_id = 2, p_credential_id = ''CgsM'', p_public_key = ''DQ4P'',
         p_counter = 0, p_device_type = ''cross-platform'', p_backed_up = False,
         p_transports = None, p_created_at = ''2025-01-02 09:30:00'',
         p_last_used_at = None\<rparr>,
        \<lparr>p_id = 3, p_user_id = 1, p_credential_id = ''BwgJ'', p_public_key = ''EBES'',
         p_counter = 0, p_device_type = ''cross-platform'', p_backed_up = True,
         p_transports = Some [''usb'', ''nfc''], p_created_at = ''2025-01-02 10:00:00'',
         p_last_used_at = None\<rparr>],
       passkeys_seq := 3\<rparr>"

definition example_db_0 :: db where
  \<comment> \<open>alice owns the credential \<open>AQID\<close> of an authenticator without a counter\<close>
  "example_db_0 =
     snd (createPasskey example_db ''2025-01-02 09:00:00'' 1 ''AQID'' ''BAUG'' 0
            ''platform'' False None)"

definition example_rt_2 :: runtime where
  \<comment> \<open>ten seconds after \<open>example_rt\<close>\<close>
  "example_rt_2 =
     \<lparr>CURRENT_TIMESTAMP = ''2025-01-02 08:51:10'',
      in_5_minutes = ''2025-01-02T08:56:10.000Z'',
      in_24_hours = ''2025-01-03T08:51:10.000Z'',
      randomUUID = ''sess3''\<rparr>"



definition example_db_0a :: db where
  \<comment> \<open>\<open>example_db_0\<close> after alice has signed in with her counterless credential\<close>
  "example_db_0a =
     snd (authenticate_verify_POST (spec_library ''c9'' decode_base64url) example_cfg example_rt
            (example_assertion [4, 5, 6] 0) example_db_0)"

definition example_db_1a :: db where
  \<comment> \<open>\<open>example_db_1\<close> after alice has signed in with an assertion reporting the
      counter 6\<close>
  "example_db_1a =
     snd (authenticate_verify_POST (spec_library ''c9'' decode_base64url) example_cfg example_rt
            (example_assertion [4, 5, 6] 6) example_db_1)"


definition example_registration_3000 :: "string \<Rightarrow> RegistrationResponseJSON" where
  \<comment> \<open>\<open>example_registration\<close> made at the origin \<open>http://localhost:3000\<close>\<close>
  "example_registration_3000 declared =
     \<lparr>r_id = declared, r_rawId = declared,
      r_response =
        \<lparr>r_clientDataJSON =
           \<lparr>cd_type = ''webauthn.create'', cd_challenge = ''c1'',
            cd_origin = ''http://localhost:3000''\<rparr>,
         r_attestationObject =
           \<lparr>at_rpId = ''localhost'', at_aaguid = ''00000000-0000-0000-0000-000000000000'',
            at_credentialId = [1, 2, 3], at_publicKey = [4, 5, 6], at_counter = 7,
            at_backedUp = False, at_signatureValid = True\<rparr>,
         r_transports = Some [''internal'']\<rparr>,
      r_type = ''public-key'', r_challenge = Some ''c1''\<rparr>"

definition example_info :: RegistrationInfo where
  \<comment> \<open>what the library reports for the attestation of the example responses\<close>
  "example_info =
     \<lparr>ri_aaguid = ''00000000-0000-0000-0000-000000000000'',
      ri_credential = \<lparr>rc_id = ''AQID'', rc_publicKey = [4, 5, 6], rc_counter = 7\<rparr>,
      ri_credentialBackedUp = False\<rparr>"

section \<open>Store statements: credential ids are unique\<close>

text \<open>
  C6.  A credential id is stored at most once, whoever owns it: \<open>createPasskey\<close> with an
  id the \<open>passkeys\<close> table already holds fails on the \<open>UNIQUE\<close> constraint of
  \<open>credential_id\<close> and leaves the store as it was, whatever the user and the other
  columns of the second call are.  In particular a second \<open>createPasskey\<close> after a
  successful one with the same id fails, and a successful \<open>createPasskey\<close> keeps the
  stored ids pairwise distinct.
\<close>

theorem createPasskey_rejects_duplicate_id:
  "(cid \<in> set (credential_ids d) \<longrightarrow>
      createPasskey d now' uid' cid pk' c' dt' bu' tr'
        = (Inl (SQLITE_CONSTRAINT_UNIQUE ''passkeys.credential_id''), d))
   \<and> (createPasskey d now uid cid pk c dt bu tr = (Inr n, d') \<longrightarrow>
        cid \<in> set (credential_ids d')
        \<and> createPasskey d' now' uid' cid pk' c' dt' bu' tr'
            = (Inl (SQLITE_CONSTRAINT_UNIQUE ''passkeys.credential_id''), d')
        \<and> (distinct (credential_ids d) \<longrightarrow> distinct (credential_ids d')))"
  by (auto simp: createPasskey_def credential_ids_def split: if_splits)

theorem createPasskey_rejects_duplicate_id_witness:
  "createPasskey example_db ''2025-01-02 09:00:00'' 1 ''AQID'' ''BAUG'' 5 ''platform'' False None
     = (Inr 1, example_db_1)
   \<and> ''AQID'' \<in> set (credential_ids example_db_1)
   \<and> distinct (credential_ids example_db) \<and> distinct (credential_ids example_db_1)
   \<and> createPasskey example_db_1 ''2025-01-02 09:05:00'' 2 ''AQID'' ''BwgJ'' 0
        ''cross-platform'' True None
       = (Inl (SQLITE_CONSTRAINT_UNIQUE ''passkeys.credential_id''), example_db_1)"
proof -
  have first: "createPasskey example_db ''2025-01-02 09:00:00'' 1 ''AQID'' ''BAUG'' 5
                 ''platform'' False None = (Inr 1, example_db_1)"
    by (simp add: example_db_1_def createPasskey_def example_db_def)
  have dist: "distinct (credential_ids example_db)"
    by (simp add: credential_ids_def example_db_def)
  from createPasskey_rejects_duplicate_id
         [where cid = "''AQID''" and d = example_db and d' = example_db_1
            and now' = "''2025-01-02 09:05:00''" and uid' = 2 and pk' = "''BwgJ''"
            and c' = 0 and dt' = "''cross-platform''" and bu' = True and tr' = None]
       first dist
  show ?thesis by blast
qed

section \<open>Authentication: the signature counter and the store\<close>

lemma find_update_rows:
  assumes "\<And>p. p_credential_id (f p) = p_credential_id p"
  shows "find (\<lambda>p. p_credential_id p = cid)
           (map (\<lambda>p. if p_credential_id p = cid then f p else p) ps)
         = map_option f (find (\<lambda>p. p_credential_id p = cid) ps)"
  using assms by (induction ps) auto

lemma getPasskeyByCredentialId_after_update:
  "getPasskeyByCredentialId (snd (updatePasskeyCounter d now n cid)) cid
     = map_option (\<lambda>pk. pk\<lparr>pu_row := (pu_row pk)\<lparr>p_counter := n, p_last_used_at := Some now\<rparr>\<rparr>)
         (getPasskeyByCredentialId d cid)"
proof -
  have "find (\<lambda>p. p_credential_id p = cid)
           (map (\<lambda>p. if p_credential_id p = cid
                     then p\<lparr>p_counter := n, p_last_used_at := Some now\<rparr> else p) (passkeys d))
         = map_option (\<lambda>p. p\<lparr>p_counter := n, p_last_used_at := Some now\<rparr>)
             (find (\<lambda>p. p_credential_id p = cid) (passkeys d))"
    by (rule find_update_rows) simp
  then show ?thesis
    by (simp add: getPasskeyByCredentialId_def updatePasskeyCounter_def getUserById_def
             split: option.splits)
qed

lemma example_lookup:
  "getPasskeyByCredentialId example_db_1 ''AQID'' = Some example_passkey"
  by (simp add: getPasskeyByCredentialId_def example_db_1_def createPasskey_def
        example_db_def getUserById_def example_passkey_def)

lemma example_decode: "decode_base64url ''BAUG'' = [4, 5, 6]"
  by (simp add: decode_base64url_def unsextet_def)

text \<open>
  C1.  Let the credential named by the assertion be stored with a nonzero counter, and
  let the assertion pass the checks that come before the counter check (challenge,
  origin, relying-party id, signature).  With the library of the specification,
  \<open>verifyPasskeyAuthentication\<close> fails with \<open>CounterRegression\<close> and leaves the store
  as it was when the reported counter is at most the stored one; when it is greater,
  the call returns \<open>verified = true\<close> and the stored counter becomes exactly the
  reported one (and the last-used time the time of the call).
\<close>

theorem verifyPasskeyAuthentication_counter_check:
  assumes found: "getPasskeyByCredentialId d (a_id body) = Some passkey"
      and nonzero: "p_counter (pu_row passkey) \<noteq> 0"
      and valid: "passes_checks cfg expectedChallenge (decode (p_public_key (pu_row passkey))) body"
  shows "(reported_counter body \<le> p_counter (pu_row passkey) \<longrightarrow>
            verifyPasskeyAuthentication (spec_library fresh decode) cfg now body expectedChallenge d
              = (Inl CounterRegression, d))
       \<and> (reported_counter body > p_counter (pu_row passkey) \<longrightarrow>
            (\<exists>d'. verifyPasskeyAuthentication (spec_library fresh decode) cfg now body
                     expectedChallenge d
                   = (Inr \<lparr>ar_verified = True, ar_userId = p_user_id (pu_row passkey),
                           ar_username = pu_username passkey\<rparr>, d')
                 \<and> d' = snd (updatePasskeyCounter d now (reported_counter body) (a_id body))
                 \<and> getPasskeyByCredentialId d' (a_id body)
                     = Some (passkey\<lparr>pu_row := (pu_row passkey)
                               \<lparr>p_counter := reported_counter body,
                                p_last_used_at := Some now\<rparr>\<rparr>)))"
proof (intro conjI impI)
  assume "reported_counter body \<le> p_counter (pu_row passkey)"
  with found nonzero valid
  show "verifyPasskeyAuthentication (spec_library fresh decode) cfg now body expectedChallenge d
          = (Inl CounterRegression, d)"
    by (simp add: verifyPasskeyAuthentication_def spec_library_def
          spec_verifyAuthenticationResponse_def passes_checks_def reported_counter_def Let_def)
next
  assume gt: "reported_counter body > p_counter (pu_row passkey)"
  let ?d' = "snd (updatePasskeyCounter d now (reported_counter body) (a_id body))"
  have upd: "updatePasskeyCounter d now (reported_counter body) (a_id body)
               = (fst (updatePasskeyCounter d now (reported_counter body) (a_id body)), ?d')"
    by simp
  have run: "verifyPasskeyAuthentication (spec_library fresh decode) cfg now body expectedChallenge d
          = (Inr \<lparr>ar_verified = True, ar_userId = p_user_id (pu_row passkey),
                  ar_username = pu_username passkey\<rparr>, ?d')"
    using found nonzero valid gt
    by (simp add: verifyPasskeyAuthentication_def spec_library_def
          spec_verifyAuthenticationResponse_def passes_checks_def reported_counter_def Let_def
          updatePasskeyCounter_def)
  have stored: "getPasskeyByCredentialId ?d' (a_id body)
                = Some (passkey\<lparr>pu_row := (pu_row passkey)
                          \<lparr>p_counter := reported_counter body, p_last_used_at := Some now\<rparr>\<rparr>)"
    by (simp add: getPasskeyByCredentialId_after_update found)
  from run stored
  show "\<exists>d'. verifyPasskeyAuthentication (spec_library fresh decode) cfg now body
                     expectedChallenge d
                   = (Inr \<lparr>ar_verified = True, ar_userId = p_user_id (pu_row passkey),
                           ar_username = pu_username passkey\<rparr>, d')
                 \<and> d' = snd (updatePasskeyCounter d now (reported_counter body) (a_id body))
                 \<and> getPasskeyByCredentialId d' (a_id body)
                     = Some (passkey\<lparr>pu_row := (pu_row passkey)
                               \<lparr>p_counter := reported_counter body,
                                p_last_used_at := Some now\<rparr>\<rparr>)"
    by blast
qed

theorem verifyPasskeyAuthentication_counter_check_witness:
  "getPasskeyByCredentialId example_db_1 ''AQID'' = Some example_passkey
   \<and> p_counter (pu_row example_passkey) = 5
   \<and> verifyPasskeyAuthentication (spec_library ''c9'' decode_base64url) example_cfg
        ''2025-01-03 08:00:00'' (example_assertion [4, 5, 6] 5) ''c2'' example_db_1
       = (Inl CounterRegression, example_db_1)
   \<and> verifyPasskeyAuthentication (spec_library ''c9'' decode_base64url) example_cfg
        ''2025-01-03 08:00:00'' (example_assertion [4, 5, 6] 3) ''c2'' example_db_1
       = (Inl CounterRegression, example_db_1)
   \<and> fst (verifyPasskeyAuthentication (spec_library ''c9'' decode_base64url) example_cfg
        ''2025-01-03 08:00:00'' (example_assertion [4, 5, 6] 6) ''c2'' example_db_1)
       = Inr \<lparr>ar_verified = True, ar_userId = 1, ar_username = ''alice''\<rparr>
   \<and> map_option (\<lambda>pk. p_counter (pu_row pk))
        (getPasskeyByCredentialId
           (snd (verifyPasskeyAuthentication (spec_library ''c9'' decode_base64url) example_cfg
                   ''2025-01-03 08:00:00'' (example_assertion [4, 5, 6] 6) ''c2'' example_db_1))
           ''AQID'')
       = Some 6"
proof -
  have found: "\<And>n. getPasskeyByCredentialId example_db_1 (a_id (example_assertion [4, 5, 6] n))
                 = Some example_passkey"
    by (simp add: example_assertion_def example_lookup)
  have nonzero: "p_counter (pu_row example_passkey) \<noteq> 0"
    by (simp add: example_passkey_def)
  have valid: "\<And>n. passes_checks example_cfg ''c2''
                 (decode_base64url (p_public_key (pu_row example_passkey)))
                 (example_assertion [4, 5, 6] n)"
    by (simp add: passes_checks_def example_cfg_def example_assertion_def example_passkey_def
          example_decode)
  have reported: "\<And>n. reported_counter (example_assertion [4, 5, 6] n) = n"
    by (simp add: reported_counter_def example_assertion_def)
  have check: "\<And>n.
      (n \<le> 5 \<longrightarrow>
         verifyPasskeyAuthentication (spec_library ''c9'' decode_base64url) example_cfg
           ''2025-01-03 08:00:00'' (example_assertion [4, 5, 6] n) ''c2'' example_db_1
         = (Inl CounterRegression, example_db_1))
      \<and> (5 < n \<longrightarrow>
         (\<exists>d'. verifyPasskeyAuthentication (spec_library ''c9'' decode_base64url) example_cfg
                  ''2025-01-03 08:00:00'' (example_assertion [4, 5, 6] n) ''c2'' example_db_1
                = (Inr \<lparr>ar_verified = True, ar_userId = 1, ar_username = ''alice''\<rparr>, d')
              \<and> map_option (\<lambda>pk. p_counter (pu_row pk))
                    (getPasskeyByCredentialId d' ''AQID'') = Some n))"
    using verifyPasskeyAuthentication_counter_check
            [where d = example_db_1 and passkey = example_passkey and cfg = example_cfg
               and expectedChallenge = "''c2''" and decode = decode_base64url
               and fresh = "''c9''" and now = "''2025-01-03 08:00:00''",
             OF found nonzero valid]
    by (simp add: reported) (simp add: example_passkey_def example_assertion_def)
  have five: "verifyPasskeyAuthentication (spec_library ''c9'' decode_base64url) example_cfg
        ''2025-01-03 08:00:00'' (example_assertion [4, 5, 6] 5) ''c2'' example_db_1
       = (Inl CounterRegression, example_db_1)"
    using check [of 5] by simp
  have three: "verifyPasskeyAuthentication (spec_library ''c9'' decode_base64url) example_cfg
        ''2025-01-03 08:00:00'' (example_assertion [4, 5, 6] 3) ''c2'' example_db_1
       = (Inl CounterRegression, example_db_1)"
    using check [of 3] by simp
  have six: "fst (verifyPasskeyAuthentication (spec_library ''c9'' decode_base64url) example_cfg
        ''2025-01-03 08:00:00'' (example_assertion [4, 5, 6] 6) ''c2'' example_db_1)
       = Inr \<lparr>ar_verified = True, ar_userId = 1, ar_username = ''alice''\<rparr>
     \<and> map_option (\<lambda>pk. p_counter (pu_row pk))
        (getPasskeyByCredentialId
           (snd (verifyPasskeyAuthentication (spec_library ''c9'' decode_base64url) example_cfg
                   ''2025-01-03 08:00:00'' (example_assertion [4, 5, 6] 6) ''c2'' example_db_1))
           ''AQID'')
       = Some 6"
    using check [of 6] by auto
  from five three six example_lookup show ?thesis
    by (simp add: example_passkey_def)
qed

text \<open>
  C2.  Whatever the library answers: when \<open>verifyPasskeyAuthentication\<close> throws, or
  returns a result that is not verified, the store it leaves behind is the store it was
  given.  So the counter and the last-used time of every credential are written only
  on a verified outcome.
\<close>

theorem verifyPasskeyAuthentication_failure_keeps_store:
  assumes "verifyPasskeyAuthentication ext cfg now body expectedChallenge d = (outcome, d')"
      and "\<forall>r. outcome = Inr r \<longrightarrow> \<not> ar_verified r"
  shows "d' = d"
  using assms
  by (auto simp: verifyPasskeyAuthentication_def Let_def updatePasskeyCounter_def
           split: option.splits sum.splits bool.splits prod.splits)

theorem verifyPasskeyAuthentication_failure_keeps_store_witness:
  "fst (verifyPasskeyAuthentication (spec_library ''c9'' decode_base64url) example_cfg
          ''2025-01-03 08:00:00'' (example_assertion [4, 5, 7] 9) ''c2'' example_db_1)
     = Inr \<lparr>ar_verified = False, ar_userId = 1, ar_username = ''alice''\<rparr>
   \<and> snd (verifyPasskeyAuthentication (spec_library ''c9'' decode_base64url) example_cfg
          ''2025-01-03 08:00:00'' (example_assertion [4, 5, 7] 9) ''c2'' example_db_1)
     = example_db_1"
proof -
  let ?run = "verifyPasskeyAuthentication (spec_library ''c9'' decode_base64url) example_cfg
          ''2025-01-03 08:00:00'' (example_assertion [4, 5, 7] 9) ''c2'' example_db_1"
  have outcome: "fst ?run = Inr \<lparr>ar_verified = False, ar_userId = 1, ar_username = ''alice''\<rparr>"
    by (simp add: verifyPasskeyAuthentication_def example_assertion_def example_lookup
          spec_library_def spec_verifyAuthenticationResponse_def example_passkey_def
          example_decode example_cfg_def)
  have "?run = (fst ?run, snd ?run)" by simp
  from verifyPasskeyAuthentication_failure_keeps_store [OF this] outcome
  show ?thesis by simp
qed

text \<open>
  C10, as amended.  Whatever the library answers: when the credential id of the response
  is found in the store, every result \<open>verifyPasskeyAuthentication\<close> returns carries the
  user id and the username of the credential's owner; it returns such a result whenever
  the library returns a verification, with the library's \<open>verified\<close>, true or false;
  and when the library throws, it throws the same error, returns no result and leaves
  the store as it was.
\<close>

theorem verifyPasskeyAuthentication_discloses_owner:
  assumes found: "getPasskeyByCredentialId d (a_id body) = Some passkey"
  shows "(\<forall>r. fst (verifyPasskeyAuthentication ext cfg now body expectedChallenge d) = Inr r
              \<longrightarrow> ar_userId r = p_user_id (pu_row passkey)
                  \<and> ar_username r = pu_username passkey)
         \<and> (\<forall>v. verifyAuthenticationResponse ext
                     (assertionOpts ext cfg body expectedChallenge passkey) = Inr v
              \<longrightarrow> fst (verifyPasskeyAuthentication ext cfg now body expectedChallenge d)
                    = Inr \<lparr>ar_verified = auth_verified v,
                           ar_userId = p_user_id (pu_row passkey),
                           ar_username = pu_username passkey\<rparr>)
         \<and> (\<forall>e. verifyAuthenticationResponse ext
                     (assertionOpts ext cfg body expectedChallenge passkey) = Inl e
              \<longrightarrow> verifyPasskeyAuthentication ext cfg now body expectedChallenge d
                    = (Inl e, d))"
  using found
  by (auto simp: verifyPasskeyAuthentication_def assertionOpts_def Let_def
                 updatePasskeyCounter_def
           split: option.splits sum.splits bool.splits prod.splits)

theorem verifyPasskeyAuthentication_discloses_owner_witness:
  "getPasskeyByCredentialId example_db_1 (a_id (example_assertion [4, 5, 7] 9))
     = Some example_passkey
   \<and> verifyAuthenticationResponse (spec_library ''c9'' decode_base64url)
       (assertionOpts (spec_library ''c9'' decode_base64url) example_cfg
          (example_assertion [4, 5, 7] 9) ''c2'' example_passkey)
     = Inr \<lparr>auth_verified = False, authenticationInfo = None\<rparr>
   \<and> fst (verifyPasskeyAuthentication (spec_library ''c9'' decode_base64url) example_cfg
          ''2025-01-03 08:00:00'' (example_assertion [4, 5, 7] 9) ''c2'' example_db_1)
     = Inr \<lparr>ar_verified = False, ar_userId = 1, ar_username = ''alice''\<rparr>"
proof -
  have found: "getPasskeyByCredentialId example_db_1 (a_id (example_assertion [4, 5, 7] 9))
                 = Some example_passkey"
    by (simp add: example_assertion_def example_lookup)
  have lib: "verifyAuthenticationResponse (spec_library ''c9'' decode_base64url)
       (assertionOpts (spec_library ''c9'' decode_base64url) example_cfg
          (example_assertion [4, 5, 7] 9) ''c2'' example_passkey)
     = Inr \<lparr>auth_verified = False, authenticationInfo = None\<rparr>"
    by (simp add: assertionOpts_def spec_library_def spec_verifyAuthenticationResponse_def
          example_assertion_def example_passkey_def example_decode example_cfg_def)
  have owner: "p_user_id (pu_row example_passkey) = 1 \<and> pu_username example_passkey = ''alice''"
    by (simp add: example_passkey_def)
  from verifyPasskeyAuthentication_discloses_owner
         [OF found, where ext = "spec_library ''c9'' decode_base64url" and cfg = example_cfg
            and expectedChallenge = "''c2''" and now = "''2025-01-03 08:00:00''"]
       found lib owner
  show ?thesis by simp
qed

text \<open>
  A failed counter check, with the library of the specification: the credential is
  found, the assertion is signed with the stored key and reports the stored counter 5,
  and the call throws \<open>CounterRegression\<close>.  There is no result, and so no user id or
  username in it.
\<close>

theorem failed_counter_check_returns_no_result:
  "getPasskeyByCredentialId example_db_1 (a_id (example_assertion [4, 5, 6] 5))
     = Some example_passkey
   \<and> p_counter (pu_row example_passkey) = 5
   \<and> reported_counter (example_assertion [4, 5, 6] 5) = 5
   \<and> verifyPasskeyAuthentication (spec_library ''c9'' decode_base64url) example_cfg
        ''2025-01-03 08:00:00'' (example_assertion [4, 5, 6] 5) ''c2'' example_db_1
     = (Inl CounterRegression, example_db_1)"
proof -
  have found: "getPasskeyByCredentialId example_db_1 (a_id (example_assertion [4, 5, 6] 5))
                 = Some example_passkey"
    by (simp add: example_assertion_def example_lookup)
  have stored: "p_counter (pu_row example_passkey) = 5"
    by (simp add: example_passkey_def)
  have reported: "reported_counter (example_assertion [4, 5, 6] 5) = 5"
    by (simp add: reported_counter_def example_assertion_def)
  have thrown: "verifyPasskeyAuthentication (spec_library ''c9'' decode_base64url) example_cfg
        ''2025-01-03 08:00:00'' (example_assertion [4, 5, 6] 5) ''c2'' example_db_1
     = (Inl CounterRegression, example_db_1)"
    by (simp add: verifyPasskeyAuthentication_def example_assertion_def example_lookup
          spec_library_def spec_verifyAuthenticationResponse_def example_passkey_def
          example_decode example_cfg_def)
  from found stored reported thrown show ?thesis by simp
qed

section \<open>Registration: what is persisted\<close>

lemma example_library:
  "verifyRegistrationResponse (spec_library ''c9'' decode_base64url)
     (registrationOpts example_cfg (example_registration declared) ''c1'')
   = Inr \<lparr>reg_verified = True, registrationInfo = Some example_info\<rparr>"
  by (simp add: spec_library_def spec_verifyRegistrationResponse_def registrationOpts_def
        example_registration_def example_cfg_def example_info_def sextet_def
        base64url_alphabet_def)

lemma example_library_3000:
  "verifyRegistrationResponse (spec_library ''c9'' decode_base64url)
     (registrationOpts (config_part_000 False) (example_registration_3000 declared) ''c1'')
   = Inr \<lparr>reg_verified = True, registrationInfo = Some example_info\<rparr>"
  by (simp add: spec_library_def spec_verifyRegistrationResponse_def registrationOpts_def
        example_registration_3000_def config_part_000_def example_info_def sextet_def
        base64url_alphabet_def)


lemma example_registration_run_3000:
  "verifyPasskeyRegistration (spec_library ''c9'' decode_base64url) (config_part_000 False)
     ''2025-01-02 08:51:00'' (example_registration_3000 declared) ''c1'' 1 example_db
   = (Inr \<lparr>rr_verified = True, rr_credentialId = declared\<rparr>,
      example_db\<lparr>passkeys :=
        [\<lparr>p_id = 1, p_user_id = 1, p_credential_id = declared, p_public_key = ''BAUG'',
          p_counter = 7, p_device_type = ''platform'', p_backed_up = False,
          p_transports = Some [''internal''], p_created_at = ''2025-01-02 08:51:00'',
          p_last_used_at = None\<rparr>],
        passkeys_seq := 1\<rparr>)"
  by (simp add: verifyPasskeyRegistration_def spec_library_def
        spec_verifyRegistrationResponse_def example_registration_3000_def config_part_000_def
        createPasskey_run_def passkey_arguments_def createPasskey_def example_db_def
        deviceType_of_def sextet_def base64url_alphabet_def)

lemma example_arguments_part_000:
  "passkey_arguments_part_000 (example_registration_3000 declared) 1 example_info
   = \<lparr>arg_user_id = 1, arg_credential_id = ''QVFJRA'', arg_public_key = ''BAUG'',
      arg_counter = 0, arg_device_type = ''platform'', arg_backed_up = JsBoolean False,
      arg_transports = Some [''internal'']\<rparr>"
  by (simp add: passkey_arguments_part_000_def example_registration_3000_def example_info_def
        deviceType_of_def Buffer_from_def sextet_def base64url_alphabet_def)

lemma example_registration_run_part_000:
  "verifyPasskeyRegistration_part_000 (spec_library ''c9'' decode_base64url) False
     ''2025-01-02 08:51:00'' (example_registration_3000 declared) ''c1'' 1 example_db
   = (Inl (TypeError ''SQLite3 can only bind numbers, strings, bigints, buffers, and null''),
      example_db)"
  by (simp add: verifyPasskeyRegistration_part_000_def spec_library_def
        spec_verifyRegistrationResponse_def example_registration_3000_def config_part_000_def
        createPasskey_run_def passkey_arguments_part_000_def)




text \<open>
  C9, as amended.  Whatever the library answers: on a verified response that can be
  stored, \<open>verifyPasskeyRegistration\<close> of \<open>src/lib/webauthn.ts\<close> returns and persists
  the \<open>id\<close> member of the response, the identifier the client declares.  It is the
  identifier the library reports for the attested credential exactly when the client
  has declared that one; the code does not compare the two.
\<close>

theorem verifyPasskeyRegistration_persists_declared_id:
  assumes lib: "verifyRegistrationResponse ext (registrationOpts cfg body expectedChallenge) = Inr v"
      and verified: "reg_verified v"
      and info: "registrationInfo v = Some info"
      and user: "userId \<in> u_id ` set (users d)"
      and new: "r_id body \<notin> set (credential_ids d)"
  shows "fst (verifyPasskeyRegistration ext cfg now body expectedChallenge userId d)
           = Inr \<lparr>rr_verified = True, rr_credentialId = r_id body\<rparr>
         \<and> credential_ids
             (snd (verifyPasskeyRegistration ext cfg now body expectedChallenge userId d))
           = credential_ids d @ [r_id body]
         \<and> (last (credential_ids
                    (snd (verifyPasskeyRegistration ext cfg now body expectedChallenge userId d)))
               = rc_id (ri_credential info)
            \<longleftrightarrow> r_id body = rc_id (ri_credential info))"
proof -
  have a: "fst (verifyPasskeyRegistration ext cfg now body expectedChallenge userId d)
           = Inr \<lparr>rr_verified = True, rr_credentialId = r_id body\<rparr>"
    using assms
    by (simp add: verifyPasskeyRegistration_def registrationOpts_def createPasskey_run_def
          passkey_arguments_def createPasskey_def credential_ids_def Let_def)
  have b: "credential_ids
             (snd (verifyPasskeyRegistration ext cfg now body expectedChallenge userId d))
           = credential_ids d @ [r_id body]"
    using assms
    by (simp add: verifyPasskeyRegistration_def registrationOpts_def createPasskey_run_def
          passkey_arguments_def createPasskey_def credential_ids_def Let_def)
  show ?thesis by (simp add: a b)
qed

theorem verifyPasskeyRegistration_persists_declared_id_witness:
  "fst (verifyPasskeyRegistration (spec_library ''c9'' decode_base64url) example_cfg
          ''2025-01-02 08:51:00'' (example_registration ''AQID'') ''c1'' 1 example_db)
     = Inr \<lparr>rr_verified = True, rr_credentialId = ''AQID''\<rparr>
   \<and> credential_ids
       (snd (verifyPasskeyRegistration (spec_library ''c9'' decode_base64url) example_cfg
               ''2025-01-02 08:51:00'' (example_registration ''AQID'') ''c1'' 1 example_db))
     = [''AQID'']
   \<and> rc_id (ri_credential example_info) = ''AQID''"
proof -
  let ?v = "\<lparr>reg_verified = True, registrationInfo = Some example_info\<rparr>"
  have verified: "reg_verified ?v" and info: "registrationInfo ?v = Some example_info"
    by simp_all
  have user: "1 \<in> u_id ` set (users example_db)"
    by (simp add: example_db_def)
  have new: "r_id (example_registration ''AQID'') \<notin> set (credential_ids example_db)"
    by (simp add: credential_ids_def example_db_def)
  have none: "credential_ids example_db = []"
    by (simp add: credential_ids_def example_db_def)
  have id: "r_id (example_registration ''AQID'') = ''AQID''"
    by (simp add: example_registration_def)
  have reported: "rc_id (ri_credential example_info) = ''AQID''"
    by (simp add: example_info_def)
  from verifyPasskeyRegistration_persists_declared_id
         [OF example_library verified info user new, where now = "''2025-01-02 08:51:00''"]
  show ?thesis
    by (simp add: none id reported)
qed

text \<open>
  A response that declares the id \<open>XXXX\<close> over an attestation for the credential
  whose id the library reports as \<open>AQID\<close>, under the configuration of \<open>part_000\<close>:
  the library verifies it; \<open>src/lib/webauthn.ts\<close> returns and persists \<open>XXXX\<close>;
  \<open>part_000\<close> derives \<open>QVFJRA\<close>, the encoding of the text \<open>AQID\<close>, and persists
  nothing.
\<close>

theorem credential_id_paths_differ:
  "verifyRegistrationResponse (spec_library ''c9'' decode_base64url)
     (registrationOpts (config_part_000 False) (example_registration_3000 ''XXXX'') ''c1'')
     = Inr \<lparr>reg_verified = True, registrationInfo = Some example_info\<rparr>
   \<and> rc_id (ri_credential example_info) = ''AQID''
   \<and> fst (verifyPasskeyRegistration (spec_library ''c9'' decode_base64url)
          (config_part_000 False) ''2025-01-02 08:51:00'' (example_registration_3000 ''XXXX'')
          ''c1'' 1 example_db)
     = Inr \<lparr>rr_verified = True, rr_credentialId = ''XXXX''\<rparr>
   \<and> credential_ids
        (snd (verifyPasskeyRegistration (spec_library ''c9'' decode_base64url)
                (config_part_000 False) ''2025-01-02 08:51:00''
                (example_registration_3000 ''XXXX'') ''c1'' 1 example_db))
       = [''XXXX'']
   \<and> arg_credential_id
        (passkey_arguments_part_000 (example_registration_3000 ''XXXX'') 1 example_info)
       = ''QVFJRA''
   \<and> credential_ids
        (snd (verifyPasskeyRegistration_part_000 (spec_library ''c9'' decode_base64url) False
                ''2025-01-02 08:51:00'' (example_registration_3000 ''XXXX'') ''c1'' 1
                example_db))
       = []"
proof -
  have reported: "rc_id (ri_credential example_info) = ''AQID''"
    by (simp add: example_info_def)
  have none: "credential_ids example_db = []"
    by (simp add: credential_ids_def example_db_def)
  show ?thesis
    unfolding example_library_3000 example_registration_run_3000
      example_registration_run_part_000 example_arguments_part_000 reported
    by (simp add: none) (simp add: credential_ids_def)
qed

section \<open>Registration: the challenge is consumed\<close>

lemma find_after_delete:
  "find (\<lambda>s. s_id s = k \<and> P s) (filter (\<lambda>s. s_id s \<noteq> k) xs) = None"
  by (induction xs) auto

lemma find_other_after_delete:
  "sid \<noteq> k \<Longrightarrow>
   find (\<lambda>s. s_id s = sid \<and> P s) (filter (\<lambda>s. s_id s \<noteq> k) xs)
     = find (\<lambda>s. s_id s = sid \<and> P s) xs"
  by (induction xs) auto

lemma getSession_deleted:
  "getSession (snd (deleteSession d k)) now k = None"
  by (simp add: getSession_def deleteSession_def find_after_delete)

lemma getSession_other:
  "sid \<noteq> k \<Longrightarrow> getSession (snd (deleteSession d k)) now sid = getSession d now sid"
  by (simp add: getSession_def deleteSession_def find_other_after_delete getUserById_def
        split: option.splits)

lemma verifyPasskeyRegistration_sessions:
  "verifyPasskeyRegistration ext cfg now body ch uid d = (out, d')
   \<Longrightarrow> webauthn_sessions d' = webauthn_sessions d \<and> users d' = users d"
  by (auto simp: verifyPasskeyRegistration_def Let_def createPasskey_run_def createPasskey_def
           split: sum.splits option.splits bool.splits prod.splits if_splits js_value.splits)

lemma getSession_cong:
  "webauthn_sessions d' = webauthn_sessions d \<Longrightarrow> users d' = users d
   \<Longrightarrow> getSession d' now sid = getSession d now sid"
  by (simp add: getSession_def getUserById_def split: option.splits)

lemma example_register_verify:
  "register_verify_POST (spec_library ''c9'' decode_base64url) example_cfg example_rt
     (Some ''sess1'') (example_registration ''AQID'') example_db_2
   = (RegistrationVerified True ''Passkey registered successfully'' ''AQID'', example_db_3)"
  by (simp add: example_db_3_def register_verify_POST_def example_rt_def example_db_2_def
        example_db_def getSession_def getUserById_def example_registration_def
        verifyPasskeyRegistration_def spec_library_def spec_verifyRegistrationResponse_def
        example_cfg_def createPasskey_run_def passkey_arguments_def createPasskey_def
        deleteSession_def)

text \<open>
  C4.  Once the registration-verify handler has answered with a verification result
  (verified or not), it has deleted the challenge session.  The same request, sent
  again with the same cookie and body, is then answered with status 400
  \<open>Invalid challenge\<close> and changes nothing, whatever the library would say about it;
  at a later time the answer is the same as long as the login session is alive, and
  401 \<open>Invalid session\<close> after that.  No replay produces a second verification.
\<close>

theorem register_verify_replay_rejected:
  assumes first: "register_verify_POST ext cfg rt cookie body d = (RegistrationVerified v msg cid, d')"
  shows "register_verify_POST ext' cfg' rt cookie body d'
           = (JsonError 400 ''Invalid challenge'', d')
         \<and> (\<exists>sessionId. cookie = Some sessionId
              \<and> register_verify_POST ext' cfg' rt' cookie body d'
                  = (if getSession d' (CURRENT_TIMESTAMP rt') sessionId = None
                     then JsonError 401 ''Invalid session''
                     else JsonError 400 ''Invalid challenge'', d'))"
proof -
  note def = register_verify_POST_def
  from first obtain sessionId where cookie: "cookie = Some sessionId"
    by (cases cookie) (simp_all add: def)
  from first cookie have nonempty: "sessionId \<noteq> []"
    by (cases "sessionId = []") (simp_all add: def)
  from first cookie nonempty obtain session where
    login: "getSession d (CURRENT_TIMESTAMP rt) sessionId = Some session"
    by (cases "getSession d (CURRENT_TIMESTAMP rt) sessionId") (simp_all add: def)
  from first cookie nonempty login obtain challenge where
    challenge: "r_challenge body = Some challenge"
    by (cases "r_challenge body") (simp_all add: def)
  from first cookie nonempty login challenge have given: "challenge \<noteq> []"
    by (cases "challenge = []") (simp_all add: def)
  from first cookie nonempty login challenge given obtain challengeSession where
    pending: "getSession d (CURRENT_TIMESTAMP rt) (''challenge-'' @ sessionId)
                = Some challengeSession"
    by (cases "getSession d (CURRENT_TIMESTAMP rt) (''challenge-'' @ sessionId)")
       (simp_all add: def)
  from first cookie nonempty login challenge given pending
  have matches: "s_challenge (su_row challengeSession) = challenge"
    by (cases "s_challenge (su_row challengeSession) = challenge") (simp_all add: def)
  obtain out d1 where
    verify: "verifyPasskeyRegistration ext cfg (CURRENT_TIMESTAMP rt) body challenge
               (s_user_id (su_row session)) d = (out, d1)"
    by (cases "verifyPasskeyRegistration ext cfg (CURRENT_TIMESTAMP rt) body challenge
               (s_user_id (su_row session)) d") simp
  from first cookie nonempty login challenge given pending matches verify
  have d': "d' = snd (deleteSession d1 (''challenge-'' @ sessionId))"
    by (cases out) (simp_all add: def deleteSession_def)
  have differ: "sessionId \<noteq> ''challenge-'' @ sessionId"
    by simp
  have consumed: "\<And>now. getSession d' now (''challenge-'' @ sessionId) = None"
    by (simp add: d' getSession_deleted)
  have same: "webauthn_sessions d1 = webauthn_sessions d \<and> users d1 = users d"
    using verify by (rule verifyPasskeyRegistration_sessions)
  have "getSession d' (CURRENT_TIMESTAMP rt) sessionId = getSession d1 (CURRENT_TIMESTAMP rt) sessionId"
    unfolding d' using differ by (rule getSession_other)
  also have "\<dots> = getSession d (CURRENT_TIMESTAMP rt) sessionId"
    by (rule getSession_cong) (simp_all add: same)
  finally have still: "getSession d' (CURRENT_TIMESTAMP rt) sessionId = Some session"
    using login by simp
  have any: "register_verify_POST e c t cookie body d'
                  = (if getSession d' (CURRENT_TIMESTAMP t) sessionId = None
                     then JsonError 401 ''Invalid session''
                     else JsonError 400 ''Invalid challenge'', d')" for e c t
  proof (cases "getSession d' (CURRENT_TIMESTAMP t) sessionId")
    case None
    then show ?thesis using cookie nonempty by (simp add: def)
  next
    case (Some s)
    then show ?thesis using cookie nonempty challenge given consumed by (simp add: def)
  qed
  show ?thesis
    using any [of ext' cfg' rt] any [of ext' cfg' rt'] still cookie by simp
qed

theorem register_verify_replay_rejected_witness:
  "register_verify_POST (spec_library ''c9'' decode_base64url) example_cfg example_rt
     (Some ''sess1'') (example_registration ''AQID'') example_db_2
     = (RegistrationVerified True ''Passkey registered successfully'' ''AQID'', example_db_3)
   \<and> register_verify_POST (spec_library ''c9'' decode_base64url) example_cfg example_rt
       (Some ''sess1'') (example_registration ''AQID'') example_db_3
     = (JsonError 400 ''Invalid challenge'', example_db_3)"
  using register_verify_replay_rejected [OF example_register_verify] example_register_verify
  by blast

section \<open>Authentication options: the allow-list\<close>

lemma mset_insert_desc: "mset (insert_desc p qs) = add_mset p (mset qs)"
  by (induction qs) auto

lemma mset_foldl_insert_desc:
  "mset (foldl (\<lambda>acc p. insert_desc p acc) acc ps) = mset acc + mset ps"
  by (induction ps arbitrary: acc) (auto simp: mset_insert_desc)

lemma mset_getPasskeysByUserId:
  "mset (getPasskeysByUserId d uid) = mset (filter (\<lambda>p. p_user_id p = uid) (passkeys d))"
  by (simp add: getPasskeysByUserId_def mset_foldl_insert_desc)


lemma generatePasskeyAuthenticationOptions_known: 
  assumes known: "name \<noteq> [] \<and> getUserByUsername d name = Some user"
  shows "generatePasskeyAuthenticationOptions (spec_library fresh decode) cfg (Some name) d
               = Inr \<lparr>auth_options =
                  \<lparr>ro_challenge = fresh, ro_rpId = RP_ID cfg,
                   ro_allowCredentials = (if getPasskeysByUserId d (u_id user) = [] then None else Some (map descriptor (getPasskeysByUserId d (u_id user)))),
                   ro_userVerification = ''preferred'', ro_timeout = 60000\<rparr>,
                auth_challenge = fresh\<rparr>"
    using known
    by (simp add: generatePasskeyAuthenticationOptions_def authenticationOpts_def
          spec_library_def spec_generateAuthenticationOptions_def Let_def)

lemma generatePasskeyAuthenticationOptions_unknown:
  assumes "username = None \<or> username = Some []
        \<or> (\<exists>unknown. username = Some unknown \<and> getUserByUsername d unknown = None)"
  shows "generatePasskeyAuthenticationOptions (spec_library fresh decode) cfg username d
                = Inr \<lparr>auth_options =
                  \<lparr>ro_challenge = fresh, ro_rpId = RP_ID cfg,
                   ro_allowCredentials = None,
                   ro_userVerification = ''preferred'', ro_timeout = 60000\<rparr>,
                auth_challenge = fresh\<rparr>"
  using assms
    by (auto simp: generatePasskeyAuthenticationOptions_def authenticationOpts_def
          spec_library_def spec_generateAuthenticationOptions_def Let_def)


lemma length_getPasskeysByUserId:
  "length (getPasskeysByUserId d uid) = length (filter (\<lambda>p. p_user_id p = uid) (passkeys d))"
  using mset_getPasskeysByUserId by (rule mset_eq_length)

lemma getPasskeysByUserId_empty:
  "getPasskeysByUserId d uid = [] \<longleftrightarrow> filter (\<lambda>p. p_user_id p = uid) (passkeys d) = []"
  using length_getPasskeysByUserId [of d uid] by (metis length_0_conv)

lemma example_users:
  "getUserByUsername example_db_4 ''alice''
     = Some \<lparr>u_id = 1, u_username = ''alice'', u_password_hash = ''h1'',
             u_created_at = ''2025-01-01 10:00:00''\<rparr>
   \<and> getUserByUsername example_db_4 ''carol'' = None"
  by (simp add: getUserByUsername_def example_db_4_def example_db_def)

text \<open>
  C7.  With a library that hands the options through (as the specification describes
  it): for a non-empty username that resolves to a user,
  \<open>generatePasskeyAuthenticationOptions\<close> returns options whose allow-list entries are
  exactly the descriptors (credential id and transports) of the passkeys stored for
  that user, as many as there are; the allow-list is absent exactly when the user has
  no passkey.  Without a username, with an empty one, or with one that resolves to no
  user, the returned options have no allow-list.
\<close>

theorem generatePasskeyAuthenticationOptions_allow_list:
  "(name \<noteq> [] \<and> getUserByUsername d name = Some user \<longrightarrow>
      (\<exists>res. generatePasskeyAuthenticationOptions (spec_library fresh decode) cfg (Some name) d
                = Inr res
            \<and> mset (allow_list (auth_options res))
                = mset (map descriptor (filter (\<lambda>p. p_user_id p = u_id user) (passkeys d)))
            \<and> length (allow_list (auth_options res))
                = length (filter (\<lambda>p. p_user_id p = u_id user) (passkeys d))
            \<and> (ro_allowCredentials (auth_options res) = None
                 \<longleftrightarrow> filter (\<lambda>p. p_user_id p = u_id user) (passkeys d) = [])))
   \<and> (username = None \<or> username = Some []
        \<or> (\<exists>unknown. username = Some unknown \<and> getUserByUsername d unknown = None) \<longrightarrow>
      (\<exists>res. generatePasskeyAuthenticationOptions (spec_library fresh decode) cfg username d
                = Inr res
            \<and> ro_allowCredentials (auth_options res) = None))"
proof (intro conjI impI)
  assume known: "name \<noteq> [] \<and> getUserByUsername d name = Some user"
  show "\<exists>res. generatePasskeyAuthenticationOptions (spec_library fresh decode) cfg (Some name) d
                = Inr res
            \<and> mset (allow_list (auth_options res))
                = mset (map descriptor (filter (\<lambda>p. p_user_id p = u_id user) (passkeys d)))
            \<and> length (allow_list (auth_options res))
                = length (filter (\<lambda>p. p_user_id p = u_id user) (passkeys d))
            \<and> (ro_allowCredentials (auth_options res) = None
                 \<longleftrightarrow> filter (\<lambda>p. p_user_id p = u_id user) (passkeys d) = [])"
    unfolding generatePasskeyAuthenticationOptions_known [OF known]
    by (simp add: allow_list_def mset_getPasskeysByUserId length_getPasskeysByUserId
          getPasskeysByUserId_empty filter_empty_conv)
next
  assume unknown: "username = None \<or> username = Some []
        \<or> (\<exists>unknown. username = Some unknown \<and> getUserByUsername d unknown = None)"
  show "\<exists>res. generatePasskeyAuthenticationOptions (spec_library fresh decode) cfg username d
                = Inr res
            \<and> ro_allowCredentials (auth_options res) = None"
    unfolding generatePasskeyAuthenticationOptions_unknown [OF unknown] by simp
qed

theorem generatePasskeyAuthenticationOptions_allow_list_witness:
  "getUserByUsername example_db_4 ''alice''
     = Some \<lparr>u_id = 1, u_username = ''alice'', u_password_hash = ''h1'',
             u_created_at = ''2025-01-01 10:00:00''\<rparr>
   \<and> (\<exists>res. generatePasskeyAuthenticationOptions (spec_library ''c2'' decode_base64url)
               example_cfg (Some ''alice'') example_db_4 = Inr res
            \<and> mset (allow_list (auth_options res))
                = {#\<lparr>c_id = ''AQID'', c_type = ''public-key'', c_transports = Some [''internal'']\<rparr>,
                    \<lparr>c_id = ''BwgJ'', c_type = ''public-key'',
                     c_transports = Some [''usb'', ''nfc'']\<rparr>#}
            \<and> length (allow_list (auth_options res)) = 2)
   \<and> (\<exists>res. generatePasskeyAuthenticationOptions (spec_library ''c2'' decode_base64url)
               example_cfg None example_db_4 = Inr res
            \<and> ro_allowCredentials (auth_options res) = None)"
proof -
  let ?alice = "\<lparr>u_id = 1, u_username = ''alice'', u_password_hash = ''h1'',
                  u_created_at = ''2025-01-01 10:00:00''\<rparr>"
  have alice: "getUserByUsername example_db_4 ''alice'' = Some ?alice"
    by (simp add: example_users)
  have stored: "map descriptor (filter (\<lambda>p. p_user_id p = u_id ?alice) (passkeys example_db_4))
        = [\<lparr>c_id = ''AQID'', c_type = ''public-key'', c_transports = Some [''internal'']\<rparr>,
           \<lparr>c_id = ''BwgJ'', c_type = ''public-key'', c_transports = Some [''usb'', ''nfc'']\<rparr>]"
    by (simp add: example_db_4_def example_db_def descriptor_def)
  have count: "length (filter (\<lambda>p. p_user_id p = u_id ?alice) (passkeys example_db_4)) = 2"
    by (simp add: example_db_4_def example_db_def)
  from generatePasskeyAuthenticationOptions_allow_list
         [where name = "''alice''" and d = example_db_4 and user = ?alice
            and username = None and fresh = "''c2''" and decode = decode_base64url
            and cfg = example_cfg]
       alice
  show ?thesis
    unfolding stored count by simp blast
qed

section \<open>Authentication: replaying an assertion\<close>

lemma spec_library_regression:
  assumes found: "getPasskeyByCredentialId d (a_id body) = Some passkey"
      and nonzero: "p_counter (pu_row passkey) \<noteq> 0"
      and valid: "passes_checks cfg expectedChallenge (decode (p_public_key (pu_row passkey))) body"
      and low: "reported_counter body \<le> p_counter (pu_row passkey)"
  shows "verifyPasskeyAuthentication (spec_library fresh decode) cfg now body expectedChallenge d
           = (Inl CounterRegression, d)"
  using assms
  by (simp add: verifyPasskeyAuthentication_def spec_library_def
        spec_verifyAuthenticationResponse_def passes_checks_def reported_counter_def Let_def)

lemma spec_library_verified:
  assumes run: "verifyPasskeyAuthentication (spec_library fresh decode) cfg now body
                  expectedChallenge d = (Inr r, d1)"
      and verified: "ar_verified r"
  shows "\<exists>passkey. getPasskeyByCredentialId d (a_id body) = Some passkey
           \<and> passes_checks cfg expectedChallenge (decode (p_public_key (pu_row passkey))) body
           \<and> d1 = snd (updatePasskeyCounter d now (reported_counter body) (a_id body))"
proof (cases "getPasskeyByCredentialId d (a_id body)")
  case None
  with run show ?thesis by (simp add: verifyPasskeyAuthentication_def)
next
  case (Some passkey)
  show ?thesis
  proof (cases "passes_checks cfg expectedChallenge (decode (p_public_key (pu_row passkey))) body")
    case False
    with run Some verified show ?thesis
      by (auto simp: verifyPasskeyAuthentication_def spec_library_def
            spec_verifyAuthenticationResponse_def passes_checks_def Let_def)
  next
    case True
    with run Some verified show ?thesis
      by (auto simp: verifyPasskeyAuthentication_def spec_library_def
            spec_verifyAuthenticationResponse_def passes_checks_def reported_counter_def
            Let_def updatePasskeyCounter_def split: if_splits)
  qed
qed

lemma getPasskeyByCredentialId_sessions:
  "getPasskeyByCredentialId (d\<lparr>webauthn_sessions := ss\<rparr>) cid = getPasskeyByCredentialId d cid"
  by (simp add: getPasskeyByCredentialId_def getUserById_def split: option.splits)

lemma createSession_passkeys:
  "createSession d now sid uid ch e = (out, d')
   \<Longrightarrow> getPasskeyByCredentialId d' cid = getPasskeyByCredentialId d cid"
  by (auto simp: createSession_def getPasskeyByCredentialId_sessions split: if_splits)

lemma example_sign_in_counterless:
  "authenticate_verify_POST (spec_library ''c9'' decode_base64url) example_cfg example_rt
     (example_assertion [4, 5, 6] 0) example_db_0
   = (AuthenticationSucceeded 1 ''alice'' ''sess2'', example_db_0a)"
  by (simp add: example_db_0a_def authenticate_verify_POST_def example_assertion_def
        verifyPasskeyAuthentication_def getPasskeyByCredentialId_def example_db_0_def
        createPasskey_def example_db_def getUserById_def spec_library_def
        spec_verifyAuthenticationResponse_def example_cfg_def example_decode
        updatePasskeyCounter_def createSession_def example_rt_def)

lemma example_sign_in:
  "authenticate_verify_POST (spec_library ''c9'' decode_base64url) example_cfg example_rt
     (example_assertion [4, 5, 6] 6) example_db_1
   = (AuthenticationSucceeded 1 ''alice'' ''sess2'', example_db_1a)"
  by (simp add: example_db_1a_def authenticate_verify_POST_def example_assertion_def
        verifyPasskeyAuthentication_def getPasskeyByCredentialId_def example_db_1_def
        createPasskey_def example_db_def getUserById_def spec_library_def
        spec_verifyAuthenticationResponse_def example_cfg_def example_decode
        updatePasskeyCounter_def createSession_def example_rt_def)

text \<open>
  C3, as amended.  The authentication-verify handler takes the expected challenge from
  the request body and keeps no record of challenges.  What stops a replay is the
  signature counter: with the library of the specification, an assertion that was
  verified and reported a nonzero counter is answered with a \<open>CounterRegression\<close>
  failure when it is sent again unchanged, at any later time, and the store is left as
  it was.
\<close>

theorem authenticate_verify_replay_rejected:
  assumes first: "authenticate_verify_POST (spec_library fresh decode) cfg rt body d
                    = (AuthenticationSucceeded uid uname sid, d')"
      and counting: "reported_counter body \<noteq> 0"
  shows "authenticate_verify_POST (spec_library fresh' decode) cfg rt' body d'
           = (JsonFailure ''Failed to verify passkey authentication'' CounterRegression, d')"
proof -
  note def = authenticate_verify_POST_def
  from first obtain challenge where challenge: "a_challenge body = Some challenge"
    by (cases "a_challenge body") (simp_all add: def)
  from first challenge have given: "challenge \<noteq> []"
    by (cases "challenge = []") (simp_all add: def)
  obtain out d1 where
    run: "verifyPasskeyAuthentication (spec_library fresh decode) cfg (CURRENT_TIMESTAMP rt)
            body challenge d = (out, d1)"
    by (cases "verifyPasskeyAuthentication (spec_library fresh decode) cfg (CURRENT_TIMESTAMP rt)
            body challenge d") simp
  from first challenge given run obtain r where out: "out = Inr r"
    by (cases out) (simp_all add: def)
  from first challenge given run out have verified: "ar_verified r"
    by (cases "ar_verified r") (simp_all add: def)
  obtain res where
    session: "createSession d1 (CURRENT_TIMESTAMP rt) (randomUUID rt) (ar_userId r)
                ''passkey-login'' (in_24_hours rt) = (res, d')"
    using first challenge given run out verified
    by (cases "createSession d1 (CURRENT_TIMESTAMP rt) (randomUUID rt) (ar_userId r)
                ''passkey-login'' (in_24_hours rt)")
       (auto simp: def split: sum.splits)
  from spec_library_verified [OF run [unfolded out] verified] obtain passkey where
        found: "getPasskeyByCredentialId d (a_id body) = Some passkey"
    and valid: "passes_checks cfg challenge (decode (p_public_key (pu_row passkey))) body"
    and d1: "d1 = snd (updatePasskeyCounter d (CURRENT_TIMESTAMP rt) (reported_counter body)
                        (a_id body))"
    by blast
  let ?passkey' = "passkey\<lparr>pu_row := (pu_row passkey)
                     \<lparr>p_counter := reported_counter body,
                      p_last_used_at := Some (CURRENT_TIMESTAMP rt)\<rparr>\<rparr>"
  have "getPasskeyByCredentialId d' (a_id body) = getPasskeyByCredentialId d1 (a_id body)"
    using session by (rule createSession_passkeys)
  also have "\<dots> = Some ?passkey'"
    unfolding d1 by (simp add: getPasskeyByCredentialId_after_update found)
  finally have found': "getPasskeyByCredentialId d' (a_id body) = Some ?passkey'" .
  have nonzero': "p_counter (pu_row ?passkey') \<noteq> 0"
    using counting by simp
  have valid': "passes_checks cfg challenge (decode (p_public_key (pu_row ?passkey'))) body"
    using valid by simp
  have low': "reported_counter body \<le> p_counter (pu_row ?passkey')"
    by simp
  have "verifyPasskeyAuthentication (spec_library fresh' decode) cfg (CURRENT_TIMESTAMP rt')
          body challenge d' = (Inl CounterRegression, d')"
    using found' nonzero' valid' low' by (rule spec_library_regression)
  then show ?thesis
    using challenge given by (simp add: def)
qed

theorem authenticate_verify_replay_rejected_witness:
  "authenticate_verify_POST (spec_library ''c9'' decode_base64url) example_cfg example_rt
     (example_assertion [4, 5, 6] 6) example_db_1
     = (AuthenticationSucceeded 1 ''alice'' ''sess2'', example_db_1a)
   \<and> reported_counter (example_assertion [4, 5, 6] 6) = 6
   \<and> authenticate_verify_POST (spec_library ''c9'' decode_base64url) example_cfg example_rt_2
       (example_assertion [4, 5, 6] 6) example_db_1a
     = (JsonFailure ''Failed to verify passkey authentication'' CounterRegression, example_db_1a)"
proof -
  have counting: "reported_counter (example_assertion [4, 5, 6] 6) \<noteq> 0"
    and six: "reported_counter (example_assertion [4, 5, 6] 6) = 6"
    by (simp_all add: reported_counter_def example_assertion_def)
  from authenticate_verify_replay_rejected [OF example_sign_in counting] example_sign_in six
  show ?thesis by simp
qed

text \<open>
  With an authenticator that does not count (stored and reported counter 0) the same
  assertion, with the same challenge, is accepted twice.
\<close>

theorem authentication_challenge_replayed:
  "authenticate_verify_POST (spec_library ''c9'' decode_base64url) example_cfg example_rt
     (example_assertion [4, 5, 6] 0) example_db_0
     = (AuthenticationSucceeded 1 ''alice'' ''sess2'', example_db_0a)
   \<and> fst (authenticate_verify_POST (spec_library ''c9'' decode_base64url) example_cfg
            example_rt_2 (example_assertion [4, 5, 6] 0) example_db_0a)
     = AuthenticationSucceeded 1 ''alice'' ''sess3''"
proof -
  have "fst (authenticate_verify_POST (spec_library ''c9'' decode_base64url) example_cfg
            example_rt_2 (example_assertion [4, 5, 6] 0) example_db_0a)
     = AuthenticationSucceeded 1 ''alice'' ''sess3''"
    by (simp add: example_db_0a_def authenticate_verify_POST_def example_assertion_def
        verifyPasskeyAuthentication_def getPasskeyByCredentialId_def example_db_0_def
        createPasskey_def example_db_def getUserById_def spec_library_def
        spec_verifyAuthenticationResponse_def example_cfg_def example_decode
        updatePasskeyCounter_def createSession_def example_rt_def example_rt_2_def)
  with example_sign_in_counterless show ?thesis by simp
qed

section \<open>Registration options: the challenge session\<close>







end
